theory Spec2Isabelle
  imports Main "HOL-Library.AList"
begin

section \<open>Wire protocol (internal/chat/protocol.go)\<close>

text \<open>
  The byte slices produced and read by \<^verbatim>\<open>encoding/json\<close> are represented by the JSON
  document they spell: a string stands for the bytes of its value, a number literal
  without fraction and exponent for its integer, any other number literal for its text.
  Object members keep their order. Escaping is not modelled; what the library does to
  bytes that are not UTF-8 is (see below).
\<close>

datatype json = JNull | JBool bool | JNum int | JFrac string | JStr string | JArr "json list"
  | JObj "(string \<times> json) list"

definition TypeMessageSend :: string where "TypeMessageSend = ''message.send''"
definition TypeRoomJoin :: string where "TypeRoomJoin = ''room.join''"
definition TypeRoomLeave :: string where "TypeRoomLeave = ''room.leave''"
definition TypeTypingStart :: string where "TypeTypingStart = ''typing.start''"
definition TypeTypingStop :: string where "TypeTypingStop = ''typing.stop''"
definition TypeMessageRead :: string where "TypeMessageRead = ''message.read''"
definition TypePing :: string where "TypePing = ''ping''"
definition TypeMessageNew :: string where "TypeMessageNew = ''message.new''"
definition TypeTypingUpdate :: string where "TypeTypingUpdate = ''typing.update''"
definition TypePresenceUpdate :: string where "TypePresenceUpdate = ''presence.update''"
definition TypeReadReceipt :: string where "TypeReadReceipt = ''read_receipt.update''"
definition TypeUnreadUpdate :: string where "TypeUnreadUpdate = ''unread.update''"
definition TypeRoomMemberJoined :: string where "TypeRoomMemberJoined = ''room.member_joined''"
definition TypeRoomMemberLeft :: string where "TypeRoomMemberLeft = ''room.member_left''"
definition TypeError :: string where "TypeError = ''error''"
definition TypePong :: string where "TypePong = ''pong''"

text \<open>
  The \<^verbatim>\<open>interface{}\<close> argument of \<^verbatim>\<open>NewWSMessage\<close>: \<^verbatim>\<open>nil\<close> or one of the payload
  structs, fields in declaration order.
\<close>

datatype payload =
    NilPayload
  | SendMessagePayload string string
  | RoomPayload string
  | ReadPayload string string
  | NewMessagePayload string string string string string string
  | TypingUpdatePayload string string string bool
  | PresenceUpdatePayload string string string
  | ReadReceiptPayload string string string string
  | UnreadUpdatePayload string int
  | MemberEventPayload string string string
  | ErrorPayload string string

text \<open>
  Strings are written and read as UTF-8 (package \<^verbatim>\<open>unicode/utf8\<close>). \<open>rune_width\<close> is the
  number of bytes of the encoding that starts a string, and 0 when the first byte starts
  none: one byte below 80, two bytes C2..DF 80..BF, three bytes E0..EF with the second in
  A0..BF after E0, in 80..9F after ED and in 80..BF otherwise, four bytes F0..F4 with the
  second in 90..BF after F0, in 80..8F after F4 and in 80..BF otherwise; later bytes are in
  80..BF.
\<close>

definition between :: "nat \<Rightarrow> nat \<Rightarrow> char \<Rightarrow> bool" where
  "between lo hi c = (lo \<le> of_char c \<and> of_char c \<le> hi)"

fun rune_width :: "string \<Rightarrow> nat" where
  "rune_width [] = 0"
| "rune_width (c # cs) =
     (let b = (of_char c :: nat) in
      if b < 0x80 then 1
      else if 0xC2 \<le> b \<and> b \<le> 0xDF then
        (case cs of
           c1 # _ \<Rightarrow> if between 0x80 0xBF c1 then 2 else 0
         | _ \<Rightarrow> 0)
      else if 0xE0 \<le> b \<and> b \<le> 0xEF then
        (case cs of
           c1 # c2 # _ \<Rightarrow>
             if between (if b = 0xE0 then 0xA0 else 0x80) (if b = 0xED then 0x9F else 0xBF) c1
                \<and> between 0x80 0xBF c2
             then 3 else 0
         | _ \<Rightarrow> 0)
      else if 0xF0 \<le> b \<and> b \<le> 0xF4 then
        (case cs of
           c1 # c2 # c3 # _ \<Rightarrow>
             if between (if b = 0xF0 then 0x90 else 0x80) (if b = 0xF4 then 0x8F else 0xBF) c1
                \<and> between 0x80 0xBF c2 \<and> between 0x80 0xBF c3
             then 4 else 0
         | _ \<Rightarrow> 0)
      else 0)"

text \<open>
  Both the encoder and the decoder of \<^verbatim>\<open>encoding/json\<close> replace every byte that starts no
  valid encoding by U+FFFD, whose encoding is EF BF BD, and go on with the next byte.
\<close>

function coerce_utf8 :: "string \<Rightarrow> string" where
  "coerce_utf8 s =
     (if s = [] then []
      else if rune_width s = 0 then [CHR 0xEF, CHR 0xBF, CHR 0xBD] @ coerce_utf8 (tl s)
      else take (rune_width s) s @ coerce_utf8 (drop (rune_width s) s))"
  by pat_completeness auto
termination
  by (relation "measure length") auto

function utf8_valid :: "string \<Rightarrow> bool" where
  "utf8_valid s =
     (if s = [] then True
      else if rune_width s = 0 then False
      else utf8_valid (drop (rune_width s) s))"
  by pat_completeness auto
termination
  by (relation "measure length") auto

declare coerce_utf8.simps [simp del]

declare utf8_valid.simps [simp del]

text \<open>\<^verbatim>\<open>json.Marshal\<close> of a payload struct: one member per field, keyed by its json tag.\<close>

fun marshal_payload :: "payload \<Rightarrow> json" where
  "marshal_payload NilPayload = JNull"
| "marshal_payload (SendMessagePayload room_id content) =
     JObj [(''room_id'', JStr (coerce_utf8 room_id)), (''content'', JStr (coerce_utf8 content))]"
| "marshal_payload (RoomPayload room_id) = JObj [(''room_id'', JStr (coerce_utf8 room_id))]"
| "marshal_payload (ReadPayload room_id timestamp) =
     JObj [(''room_id'', JStr (coerce_utf8 room_id)), (''timestamp'', JStr (coerce_utf8 timestamp))]"
| "marshal_payload (NewMessagePayload mid room_id sender_id sender_username content created_at) =
     JObj [(''id'', JStr (coerce_utf8 mid)), (''room_id'', JStr (coerce_utf8 room_id)),
           (''sender_id'', JStr (coerce_utf8 sender_id)),
           (''sender_username'', JStr (coerce_utf8 sender_username)),
           (''content'', JStr (coerce_utf8 content)),
           (''created_at'', JStr (coerce_utf8 created_at))]"
| "marshal_payload (TypingUpdatePayload room_id user_id username is_typing) =
     JObj [(''room_id'', JStr (coerce_utf8 room_id)), (''user_id'', JStr (coerce_utf8 user_id)),
           (''username'', JStr (coerce_utf8 username)), (''is_typing'', JBool is_typing)]"
| "marshal_payload (PresenceUpdatePayload user_id username status) =
     JObj [(''user_id'', JStr (coerce_utf8 user_id)), (''username'', JStr (coerce_utf8 username)),
           (''status'', JStr (coerce_utf8 status))]"
| "marshal_payload (ReadReceiptPayload room_id user_id username last_read) =
     JObj [(''room_id'', JStr (coerce_utf8 room_id)), (''user_id'', JStr (coerce_utf8 user_id)),
           (''username'', JStr (coerce_utf8 username)),
           (''last_read_at'', JStr (coerce_utf8 last_read))]"
| "marshal_payload (UnreadUpdatePayload room_id n) =
     JObj [(''room_id'', JStr (coerce_utf8 room_id)), (''count'', JNum n)]"
| "marshal_payload (MemberEventPayload room_id user_id username) =
     JObj [(''room_id'', JStr (coerce_utf8 room_id)), (''user_id'', JStr (coerce_utf8 user_id)),
           (''username'', JStr (coerce_utf8 username))]"
| "marshal_payload (ErrorPayload message code) =
     JObj [(''message'', JStr (coerce_utf8 message)), (''code'', JStr (coerce_utf8 code))]"

text \<open>
  \<^verbatim>\<open>WSMessage\<close>: the payload is a \<^verbatim>\<open>json.RawMessage\<close> tagged \<^verbatim>\<open>omitempty\<close>; \<open>None\<close> is
  the nil (empty) raw message, which the encoder leaves out.
\<close>

record WSMessage =
  Type :: string
  Payload :: "json option"

definition marshal_WSMessage :: "WSMessage \<Rightarrow> json" where
  "marshal_WSMessage msg =
     JObj ((''type'', JStr (coerce_utf8 (Type msg))) #
           (case Payload msg of None \<Rightarrow> [] | Some p \<Rightarrow> [(''payload'', p)]))"

datatype error = SyntaxError | UnmarshalTypeError | DriverError | ForeignKeyViolation
  | UniqueViolation

text \<open>
  \<^verbatim>\<open>NewWSMessage\<close> returns the bytes and an error. \<^verbatim>\<open>json.Marshal\<close> fails only on values
  the payload structs cannot hold (channels, functions, cycles, NaN), so both calls succeed.
\<close>

definition NewWSMessage :: "string \<Rightarrow> payload \<Rightarrow> error + json" where
  "NewWSMessage msgType pl =
     (let p = (if pl \<noteq> NilPayload then Some (marshal_payload pl) else None)
      in Inr (marshal_WSMessage \<lparr>Type = msgType, Payload = p\<rparr>))"

text \<open>\<^verbatim>\<open>data, _ := NewWSMessage(...)\<close>: the error is dropped; on error the slice is nil.\<close>

definition ignore_err :: "error + json \<Rightarrow> json" where
  "ignore_err r = (case r of Inr d \<Rightarrow> d | Inl _ \<Rightarrow> JNull)"

section \<open>Go channels\<close>

text \<open>
  A buffered channel: its pending elements in FIFO order, its capacity, and whether it
  has been closed. Sending on a closed channel and closing a closed channel panic.
\<close>

record 'a chan =
  chan_buf :: "'a list"
  chan_cap :: nat
  chan_closed :: bool

definition make_chan :: "nat \<Rightarrow> 'a chan" where
  "make_chan n = \<lparr>chan_buf = [], chan_cap = n, chan_closed = False\<rparr>"

datatype panic = SendOnClosedChannel | CloseOfClosedChannel

text \<open>\<^verbatim>\<open>select { case ch <- v: default: }\<close>: which branch runs.\<close>

datatype 'a selected = Sent "'a chan" | Default | Panicked panic

definition try_send :: "'a chan \<Rightarrow> 'a \<Rightarrow> 'a selected" where
  "try_send ch v =
     (if chan_closed ch then Panicked SendOnClosedChannel
      else if length (chan_buf ch) < chan_cap ch then Sent (ch\<lparr>chan_buf := chan_buf ch @ [v]\<rparr>)
      else Default)"

definition close_chan :: "'a chan \<Rightarrow> panic + 'a chan" where
  "close_chan ch =
     (if chan_closed ch then Inl CloseOfClosedChannel else Inr (ch\<lparr>chan_closed := True\<rparr>))"

definition chan_full :: "'a chan \<Rightarrow> bool" where
  "chan_full ch = (\<not> length (chan_buf ch) < chan_cap ch)"

section \<open>Storage (internal/database)\<close>

text \<open>
  The tables of migrations.go, rows in a list. Columns no modelled query reads are left
  out. Timestamps are instants on an integer time line. \<open>faults\<close> is the environment's
  choice, call by call, of whether the driver fails the next statement; \<open>clock\<close> is the
  value of \<^verbatim>\<open>NOW()\<close>; \<open>uuid_source\<close> lists the values of \<^verbatim>\<open>gen_random_uuid()\<close> and
  \<open>uuid_used\<close> counts those already drawn.
\<close>

record user_row =
  user_id :: string
  user_username :: string

record member_row =
  rm_room_id :: string
  rm_user_id :: string
  rm_joined_at :: int
  rm_last_read_at :: int

record message_row =
  m_id :: string
  m_room_id :: string
  m_sender_id :: string
  m_content :: string
  m_created_at :: int

record db =
  tbl_users :: "user_row list"
  tbl_rooms :: "string list"
  tbl_room_members :: "member_row list"
  tbl_messages :: "message_row list"
  clock :: int
  uuid_source :: "nat \<Rightarrow> string"
  uuid_used :: nat
  faults :: "bool list"

text \<open>One round trip to the server: the driver's verdict, and the remaining script.\<close>

definition driver :: "db \<Rightarrow> bool \<times> db" where
  "driver d = (case faults d of [] \<Rightarrow> (False, d) | f # fs \<Rightarrow> (f, d\<lparr>faults := fs\<rparr>))"

definition is_member_row :: "string \<Rightarrow> string \<Rightarrow> member_row \<Rightarrow> bool" where
  "is_member_row roomID userID rm = (rm_room_id rm = roomID \<and> rm_user_id rm = userID)"

text \<open>\<^verbatim>\<open>INSERT INTO room_members (room_id, user_id) VALUES ($1, $2) ON CONFLICT DO NOTHING\<close>\<close>

definition AddRoomMember :: "db \<Rightarrow> string \<Rightarrow> string \<Rightarrow> error option \<times> db" where
  "AddRoomMember d roomID userID =
     (let (bad, d1) = driver d in
      if bad then (Some DriverError, d1)
      else if list_ex (is_member_row roomID userID) (tbl_room_members d1) then (None, d1)
      else if roomID \<notin> set (tbl_rooms d1) \<or> userID \<notin> set (map user_id (tbl_users d1))
        then (Some ForeignKeyViolation, d1)
      else (None, d1\<lparr>tbl_room_members := tbl_room_members d1 @
              [\<lparr>rm_room_id = roomID, rm_user_id = userID,
                rm_joined_at = clock d1, rm_last_read_at = clock d1\<rparr>]\<rparr>))"

text \<open>\<^verbatim>\<open>DELETE FROM room_members WHERE room_id = $1 AND user_id = $2\<close>\<close>

definition RemoveRoomMember :: "db \<Rightarrow> string \<Rightarrow> string \<Rightarrow> error option \<times> db" where
  "RemoveRoomMember d roomID userID =
     (let (bad, d1) = driver d in
      if bad then (Some DriverError, d1)
      else (None, d1\<lparr>tbl_room_members :=
              filter (\<lambda>rm. \<not> is_member_row roomID userID rm) (tbl_room_members d1)\<rparr>))"

text \<open>
  \<^verbatim>\<open>SELECT u.id, ... FROM users u JOIN room_members rm ON u.id = rm.user_id
  WHERE rm.room_id = $1\<close>
\<close>

definition GetRoomMembers :: "db \<Rightarrow> string \<Rightarrow> (error + user_row list) \<times> db" where
  "GetRoomMembers d roomID =
     (let (bad, d1) = driver d in
      if bad then (Inl DriverError, d1)
      else (Inr (concat (map (\<lambda>u. concat (map (\<lambda>rm.
                   if user_id u = rm_user_id rm \<and> rm_room_id rm = roomID then [u] else [])
                 (tbl_room_members d1))) (tbl_users d1))), d1))"

text \<open>
  \<^verbatim>\<open>SELECT EXISTS(SELECT 1 FROM room_members WHERE room_id = $1 AND user_id = $2)\<close>;
  on error the scanned boolean keeps its zero value.
\<close>

definition IsRoomMember :: "db \<Rightarrow> string \<Rightarrow> string \<Rightarrow> (bool \<times> error option) \<times> db" where
  "IsRoomMember d roomID userID =
     (let (bad, d1) = driver d in
      if bad then ((False, Some DriverError), d1)
      else ((list_ex (is_member_row roomID userID) (tbl_room_members d1), None), d1))"

text \<open>
  \<^verbatim>\<open>INSERT INTO messages (room_id, sender_id, content) ... RETURNING ...\<close> joined with the
  sender's user row: the new row and the sender's username.
\<close>

definition CreateMessage ::
  "db \<Rightarrow> string \<Rightarrow> string \<Rightarrow> string \<Rightarrow> (error + message_row \<times> string) \<times> db" where
  "CreateMessage d roomID senderID content =
     (let (bad, d1) = driver d in
      if bad then (Inl DriverError, d1)
      else
        let new_id = uuid_source d1 (uuid_used d1);
            d2 = d1\<lparr>uuid_used := Suc (uuid_used d1)\<rparr>
        in if new_id \<in> set (map m_id (tbl_messages d2)) then (Inl UniqueViolation, d2)
           else if roomID \<notin> set (tbl_rooms d2) then (Inl ForeignKeyViolation, d2)
           else (case filter (\<lambda>u. user_id u = senderID) (tbl_users d2) of
                   [] \<Rightarrow> (Inl ForeignKeyViolation, d2)
                 | u # _ \<Rightarrow>
                     let m = \<lparr>m_id = new_id, m_room_id = roomID, m_sender_id = senderID,
                              m_content = content, m_created_at = clock d2\<rparr>
                     in (Inr (m, user_username u), d2\<lparr>tbl_messages := tbl_messages d2 @ [m]\<rparr>)))"

text \<open>\<^verbatim>\<open>UPDATE room_members SET last_read_at = $1 WHERE room_id = $2 AND user_id = $3\<close>\<close>

definition UpdateLastRead :: "db \<Rightarrow> string \<Rightarrow> string \<Rightarrow> int \<Rightarrow> error option \<times> db" where
  "UpdateLastRead d roomID userID timestamp =
     (let (bad, d1) = driver d in
      if bad then (Some DriverError, d1)
      else (None, d1\<lparr>tbl_room_members :=
              map (\<lambda>rm. if is_member_row roomID userID rm
                         then rm\<lparr>rm_last_read_at := timestamp\<rparr> else rm)
                  (tbl_room_members d1)\<rparr>))"

text \<open>
  \<^verbatim>\<open>SELECT COUNT(*) FROM messages m
  JOIN room_members rm ON rm.room_id = m.room_id AND rm.user_id = $2
  WHERE m.room_id = $1 AND m.created_at > rm.last_read_at AND m.sender_id != $2\<close>:
  the number of joined row pairs that pass the filter.
\<close>

definition unread_pairs :: "db \<Rightarrow> string \<Rightarrow> string \<Rightarrow> (message_row \<times> member_row) list" where
  "unread_pairs d roomID userID =
     filter (\<lambda>(m, rm). m_room_id m = roomID \<and> m_created_at m > rm_last_read_at rm
                        \<and> m_sender_id m \<noteq> userID)
       (concat (map (\<lambda>m. concat (map (\<lambda>rm.
            if rm_room_id rm = m_room_id m \<and> rm_user_id rm = userID then [(m, rm)] else [])
          (tbl_room_members d))) (tbl_messages d)))"

definition GetUnreadCount :: "db \<Rightarrow> string \<Rightarrow> string \<Rightarrow> (int \<times> error option) \<times> db" where
  "GetUnreadCount d roomID userID =
     (let (bad, d1) = driver d in
      if bad then ((0, Some DriverError), d1)
      else ((int (length (unread_pairs d1 roomID userID)), None), d1))"

text \<open>
  \<^verbatim>\<open>GetRoomsForUser\<close>: rooms joined with the user's membership rows. Only the id column
  is kept, the one \<^verbatim>\<open>ServeWS\<close> reads; the ids go into a set, so the order is immaterial.
\<close>

definition GetRoomsForUser :: "db \<Rightarrow> string \<Rightarrow> (error + string list) \<times> db" where
  "GetRoomsForUser d userID =
     (let (bad, d1) = driver d in
      if bad then (Inl DriverError, d1)
      else (Inr (concat (map (\<lambda>r. concat (map (\<lambda>rm.
                   if r = rm_room_id rm \<and> rm_user_id rm = userID then [r] else [])
                 (tbl_room_members d1))) (tbl_rooms d1))), d1))"

section \<open>Client and Hub (internal/chat/client.go, internal/chat/hub.go)\<close>

text \<open>
  A \<^verbatim>\<open>*Client\<close> is an address into the heap of client objects, so that the Hub's
  identity test \<^verbatim>\<open>existing == client\<close> compares addresses. The connection handle and the
  mutex are left out. \<open>rooms\<close> is the key set of the \<^verbatim>\<open>map[string]bool\<close>.
\<close>

record Client =
  UserID :: string
  Username :: string
  rooms :: "string set"
  send :: "json chan"

record BroadcastMessage =
  RoomID :: string
  Data :: json
  ExcludeUserID :: string

text \<open>
  The Hub: \<open>clients\<close> is the map from user id to client address, kept as an association
  list whose order stands for the (unspecified) iteration order of the Go map;
  \<open>broadcast\<close> is the content of the buffered broadcast channel; \<open>heap\<close> holds the client
  objects and \<open>brk\<close> is the first address not yet allocated; \<open>spawned\<close> lists the
  \<^verbatim>\<open>go sendUnreadUpdates(hub, roomID, senderID)\<close> calls that have been started and not yet run.
\<close>

record Hub =
  clients :: "(string \<times> nat) list"
  broadcast :: "BroadcastMessage list"
  DB :: db
  heap :: "nat \<Rightarrow> Client"
  brk :: nat
  spawned :: "(string \<times> string) list"

definition NewHub :: "db \<Rightarrow> Hub" where
  "NewHub d = \<lparr>clients = [], broadcast = [], DB = d,
               heap = (\<lambda>_. \<lparr>UserID = [], Username = [], rooms = {}, send = make_chan 0\<rparr>),
               brk = 0, spawned = []\<rparr>"

definition set_send :: "Hub \<Rightarrow> nat \<Rightarrow> json chan \<Rightarrow> Hub" where
  "set_send h client ch = h\<lparr>heap := (heap h)(client := (heap h client)\<lparr>send := ch\<rparr>)\<rparr>"

definition and_then :: "panic + 'a \<Rightarrow> ('a \<Rightarrow> panic + 'b) \<Rightarrow> panic + 'b" where
  "and_then r f = (case r of Inl e \<Rightarrow> Inl e | Inr x \<Rightarrow> f x)"

text \<open>\<^verbatim>\<open>close(c.send)\<close> for the client at an address.\<close>

definition close_send :: "Hub \<Rightarrow> nat \<Rightarrow> panic + Hub" where
  "close_send h client =
     (case close_chan (send (heap h client)) of
        Inl e \<Rightarrow> Inl e
      | Inr ch \<Rightarrow> Inr (set_send h client ch))"

text \<open>The loop of \<^verbatim>\<open>broadcastPresence\<close>: a full queue drops the frame and nothing else.\<close>

fun presence_loop :: "json \<Rightarrow> (string \<times> nat) list \<Rightarrow> Hub \<Rightarrow> panic + Hub" where
  "presence_loop data [] h = Inr h"
| "presence_loop data ((userID, client) # rest) h =
     (case try_send (send (heap h client)) data of
        Sent ch \<Rightarrow> presence_loop data rest (set_send h client ch)
      | Default \<Rightarrow> presence_loop data rest h
      | Panicked e \<Rightarrow> Inl e)"

definition broadcastPresence :: "Hub \<Rightarrow> string \<Rightarrow> string \<Rightarrow> string \<Rightarrow> panic + Hub" where
  "broadcastPresence h userID username status =
     (case NewWSMessage TypePresenceUpdate (PresenceUpdatePayload userID username status) of
        Inl err \<Rightarrow> Inr h
      | Inr data \<Rightarrow> presence_loop data (clients h) h)"

text \<open>\<^verbatim>\<open>case client := <-h.register\<close>\<close>

definition run_register :: "Hub \<Rightarrow> nat \<Rightarrow> panic + Hub" where
  "run_register h client =
     (let uid = UserID (heap h client) in
      and_then (case map_of (clients h) uid of
                  Some old \<Rightarrow> close_send h old
                | None \<Rightarrow> Inr h)
        (\<lambda>h1. let h2 = h1\<lparr>clients := AList.update uid client (clients h1)\<rparr>
              in broadcastPresence h2 uid (Username (heap h2 client)) ''online''))"

text \<open>\<^verbatim>\<open>case client := <-h.unregister\<close>\<close>

definition run_unregister :: "Hub \<Rightarrow> nat \<Rightarrow> panic + Hub" where
  "run_unregister h client =
     (let uid = UserID (heap h client) in
      and_then (if map_of (clients h) uid = Some client
                then close_send (h\<lparr>clients := AList.delete uid (clients h)\<rparr>) client
                else Inr h)
        (\<lambda>h1. broadcastPresence h1 uid (Username (heap h1 client)) ''offline''))"

text \<open>
  \<^verbatim>\<open>case msg := <-h.broadcast\<close>: the loop over the entries of the map. Deleting the
  current key during the iteration leaves the remaining entries to be visited.
\<close>

fun broadcast_loop :: "BroadcastMessage \<Rightarrow> (string \<times> nat) list \<Rightarrow> Hub \<Rightarrow> panic + Hub" where
  "broadcast_loop msg [] h = Inr h"
| "broadcast_loop msg ((userID, client) # rest) h =
     (if userID = ExcludeUserID msg then broadcast_loop msg rest h
      else if RoomID msg \<in> rooms (heap h client) then
        (case try_send (send (heap h client)) (Data msg) of
           Sent ch \<Rightarrow> broadcast_loop msg rest (set_send h client ch)
         | Default \<Rightarrow>
             (case close_send h client of
                Inl e \<Rightarrow> Inl e
              | Inr h1 \<Rightarrow>
                  broadcast_loop msg rest (h1\<lparr>clients := AList.delete userID (clients h1)\<rparr>))
         | Panicked e \<Rightarrow> Inl e)
      else broadcast_loop msg rest h)"

definition run_broadcast :: "Hub \<Rightarrow> BroadcastMessage \<Rightarrow> panic + Hub" where
  "run_broadcast h msg = broadcast_loop msg (clients h) h"

text \<open>One iteration of \<^verbatim>\<open>Hub.Run\<close>, by the case of the select that fires.\<close>

datatype select_case = RecvRegister nat | RecvUnregister nat | RecvBroadcast

fun Run_step :: "Hub \<Rightarrow> select_case \<Rightarrow> panic + Hub" where
  "Run_step h (RecvRegister client) = run_register h client"
| "Run_step h (RecvUnregister client) = run_unregister h client"
| "Run_step h RecvBroadcast =
     (case broadcast h of
        [] \<Rightarrow> Inr h
      | msg # pending \<Rightarrow> run_broadcast (h\<lparr>broadcast := pending\<rparr>) msg)"

fun Run :: "Hub \<Rightarrow> select_case list \<Rightarrow> panic + Hub" where
  "Run h [] = Inr h"
| "Run h (c # cs) = and_then (Run_step h c) (\<lambda>h1. Run h1 cs)"

text \<open>
  \<^verbatim>\<open>BroadcastToRoom\<close> sends on the broadcast channel; the send waits while 256 messages are
  pending, which the model does not bound.
\<close>

definition BroadcastToRoom :: "Hub \<Rightarrow> string \<Rightarrow> json \<Rightarrow> string \<Rightarrow> Hub" where
  "BroadcastToRoom h roomID data excludeUserID =
     h\<lparr>broadcast := broadcast h @
          [\<lparr>RoomID = roomID, Data = data, ExcludeUserID = excludeUserID\<rparr>]\<rparr>"

definition SendToUser :: "Hub \<Rightarrow> string \<Rightarrow> json \<Rightarrow> panic + Hub" where
  "SendToUser h userID data =
     (case map_of (clients h) userID of
        None \<Rightarrow> Inr h
      | Some client \<Rightarrow>
          (case try_send (send (heap h client)) data of
             Sent ch \<Rightarrow> Inr (set_send h client ch)
           | Default \<Rightarrow> Inr h
           | Panicked e \<Rightarrow> Inl e))"

text \<open>
  \<^verbatim>\<open>ServeWS\<close> after the token check and the upgrade: a new client object with a queue of
  256 frames and the rooms loaded from storage; its address is then sent to the register
  channel.
\<close>

definition new_client :: "Hub \<Rightarrow> string \<Rightarrow> string \<Rightarrow> string set \<Rightarrow> nat \<times> Hub" where
  "new_client h userID username rs =
     (brk h, h\<lparr>heap := (heap h)(brk h := \<lparr>UserID = userID, Username = username,
                                             rooms = rs, send = make_chan 256\<rparr>),
               brk := Suc (brk h)\<rparr>)"

definition ServeWS :: "Hub \<Rightarrow> string \<Rightarrow> string \<Rightarrow> nat \<times> Hub" where
  "ServeWS h userID username =
     (let (userRooms, d1) = GetRoomsForUser (DB h) userID;
          rs = (case userRooms of Inr ids \<Rightarrow> set ids | Inl err \<Rightarrow> {})
      in new_client (h\<lparr>DB := d1\<rparr>) userID username rs)"

section \<open>Domain operations (internal/chat/room.go)\<close>

text \<open>
  A handler receives the client's address and the fields of its payload struct. The
  functions of package \<^verbatim>\<open>time\<close> are parameters: \<open>time_Parse\<close> stands for
  \<^verbatim>\<open>time.Parse(time.RFC3339, _)\<close> (\<open>None\<close> on error) and \<open>time_Format\<close> for
  \<^verbatim>\<open>_.Format(time.RFC3339)\<close>.
\<close>

definition sendError :: "Hub \<Rightarrow> nat \<Rightarrow> string \<Rightarrow> string \<Rightarrow> panic + Hub" where
  "sendError h c message code =
     (let data = ignore_err (NewWSMessage TypeError (ErrorPayload message code)) in
      case try_send (send (heap h c)) data of
        Sent ch \<Rightarrow> Inr (set_send h c ch)
      | Default \<Rightarrow> Inr h
      | Panicked e \<Rightarrow> Inl e)"

definition HandleSendMessage ::
  "(int \<Rightarrow> string) \<Rightarrow> Hub \<Rightarrow> nat \<Rightarrow> string \<Rightarrow> string \<Rightarrow> panic + Hub" where
  "HandleSendMessage time_Format h c roomID content =
     (if content = [] \<or> roomID = []
      then sendError h c ''content and room_id are required'' ''INVALID_PAYLOAD''
      else
        let ((isMember, err), d1) = IsRoomMember (DB h) roomID (UserID (heap h c));
            h1 = h\<lparr>DB := d1\<rparr>
        in if err \<noteq> None \<or> \<not> isMember
           then sendError h1 c ''not a member of this room'' ''NOT_MEMBER''
           else
             (case CreateMessage (DB h1) roomID (UserID (heap h1 c)) content of
                (Inl err, d2) \<Rightarrow>
                  sendError (h1\<lparr>DB := d2\<rparr>) c ''failed to send message'' ''INTERNAL_ERROR''
              | (Inr (msg, sender_username), d2) \<Rightarrow>
                  let h2 = h1\<lparr>DB := d2\<rparr> in
                  (case NewWSMessage TypeMessageNew
                          (NewMessagePayload (m_id msg) (m_room_id msg) (m_sender_id msg)
                             sender_username (m_content msg) (time_Format (m_created_at msg))) of
                     Inl err \<Rightarrow> Inr h2
                   | Inr data \<Rightarrow>
                       let h3 = BroadcastToRoom h2 roomID data []
                       in Inr (h3\<lparr>spawned := spawned h3 @ [(roomID, UserID (heap h3 c))]\<rparr>))))"

definition HandleRoomJoin :: "Hub \<Rightarrow> nat \<Rightarrow> string \<Rightarrow> Hub" where
  "HandleRoomJoin h c roomID =
     (case AddRoomMember (DB h) roomID (UserID (heap h c)) of
        (Some err, d1) \<Rightarrow> h\<lparr>DB := d1\<rparr>
      | (None, d1) \<Rightarrow>
          let h1 = h\<lparr>DB := d1,
                     heap := (heap h)(c := (heap h c)\<lparr>rooms := insert roomID (rooms (heap h c))\<rparr>)\<rparr>;
              data = ignore_err (NewWSMessage TypeRoomMemberJoined
                       (MemberEventPayload roomID (UserID (heap h1 c)) (Username (heap h1 c))))
          in BroadcastToRoom h1 roomID data [])"

definition HandleRoomLeave :: "Hub \<Rightarrow> nat \<Rightarrow> string \<Rightarrow> Hub" where
  "HandleRoomLeave h c roomID =
     (case RemoveRoomMember (DB h) roomID (UserID (heap h c)) of
        (Some err, d1) \<Rightarrow> h\<lparr>DB := d1\<rparr>
      | (None, d1) \<Rightarrow>
          let h1 = h\<lparr>DB := d1,
                     heap := (heap h)(c := (heap h c)\<lparr>rooms := rooms (heap h c) - {roomID}\<rparr>)\<rparr>;
              data = ignore_err (NewWSMessage TypeRoomMemberLeft
                       (MemberEventPayload roomID (UserID (heap h1 c)) (Username (heap h1 c))))
          in BroadcastToRoom h1 roomID data [])"

definition HandleTyping :: "Hub \<Rightarrow> nat \<Rightarrow> string \<Rightarrow> bool \<Rightarrow> Hub" where
  "HandleTyping h c roomID isTyping =
     (let data = ignore_err (NewWSMessage TypeTypingUpdate
                   (TypingUpdatePayload roomID (UserID (heap h c)) (Username (heap h c)) isTyping))
      in BroadcastToRoom h roomID data (UserID (heap h c)))"

definition HandleMessageRead ::
  "(string \<Rightarrow> int option) \<Rightarrow> Hub \<Rightarrow> nat \<Rightarrow> string \<Rightarrow> string \<Rightarrow> panic + Hub" where
  "HandleMessageRead time_Parse h c roomID timestamp =
     (case time_Parse timestamp of
        None \<Rightarrow> Inr h
      | Some t \<Rightarrow>
          (case UpdateLastRead (DB h) roomID (UserID (heap h c)) t of
             (Some err, d1) \<Rightarrow> Inr (h\<lparr>DB := d1\<rparr>)
           | (None, d1) \<Rightarrow>
               let h1 = h\<lparr>DB := d1\<rparr>;
                   data = ignore_err (NewWSMessage TypeReadReceipt
                            (ReadReceiptPayload roomID (UserID (heap h1 c)) (Username (heap h1 c))
                               timestamp));
                   h2 = BroadcastToRoom h1 roomID data (UserID (heap h1 c));
                   unreadData = ignore_err (NewWSMessage TypeUnreadUpdate
                                  (UnreadUpdatePayload roomID 0))
               in SendToUser h2 (UserID (heap h2 c)) unreadData))"

fun unread_loop :: "Hub \<Rightarrow> string \<Rightarrow> string \<Rightarrow> user_row list \<Rightarrow> panic + Hub" where
  "unread_loop h roomID senderID [] = Inr h"
| "unread_loop h roomID senderID (member # rest) =
     (if user_id member = senderID then unread_loop h roomID senderID rest
      else
        let ((n, err), d1) = GetUnreadCount (DB h) roomID (user_id member);
            h1 = h\<lparr>DB := d1\<rparr>
        in if err \<noteq> None then unread_loop h1 roomID senderID rest
           else
             let data = ignore_err (NewWSMessage TypeUnreadUpdate (UnreadUpdatePayload roomID n))
             in and_then (SendToUser h1 (user_id member) data)
                  (\<lambda>h2. unread_loop h2 roomID senderID rest))"

definition sendUnreadUpdates :: "Hub \<Rightarrow> string \<Rightarrow> string \<Rightarrow> panic + Hub" where
  "sendUnreadUpdates h roomID senderID =
     (case GetRoomMembers (DB h) roomID of
        (Inl err, d1) \<Rightarrow> Inr (h\<lparr>DB := d1\<rparr>)
      | (Inr members, d1) \<Rightarrow> unread_loop (h\<lparr>DB := d1\<rparr>) roomID senderID members)"

section \<open>Decoding and dispatch (internal/chat/client.go)\<close>

text \<open>
  \<^verbatim>\<open>json.Unmarshal\<close> into a struct, on JSON documents. Empty input is a syntax error and
  \<^verbatim>\<open>null\<close> leaves the struct as it is. The members of an object are taken in their order:
  a member is stored into the field whose tag equals its key or, if there is none, into
  the first field whose tag equals it after case folding; a member that matches no field
  is skipped. Storing \<^verbatim>\<open>null\<close> changes nothing; storing a value of the wrong kind, or an
  integer outside 64 bits, leaves the field, records a type error and goes on; the first
  recorded error is returned at the end. Any other document is a type error.
\<close>

text \<open>
  Case folding of a key (\<^verbatim>\<open>foldName\<close>): ASCII letters go to upper case, U+017F (C5 BF)
  to S and U+212A (E2 84 AA) to K. Every other rune folds to a rune outside ASCII, so it
  can never make a key equal to a folded tag; its bytes are kept.
\<close>

definition upper :: "char \<Rightarrow> char" where
  "upper c = (if between 0x61 0x7A c then char_of (of_char c - (0x20 :: nat)) else c)"

fun fold_name :: "string \<Rightarrow> string" where
  "fold_name (a # b # c # cs) =
     (if a = CHR 0xE2 \<and> b = CHR 0x84 \<and> c = CHR 0xAA then CHR ''K'' # fold_name cs
      else if a = CHR 0xC5 \<and> b = CHR 0xBF then CHR ''S'' # fold_name (c # cs)
      else upper a # fold_name (b # c # cs))"
| "fold_name [a, b] =
     (if a = CHR 0xC5 \<and> b = CHR 0xBF then [CHR ''S''] else [upper a, upper b])"
| "fold_name [a] = [upper a]"
| "fold_name [] = []"

definition find_field :: "string \<Rightarrow> (string \<times> 'k) list \<Rightarrow> (string \<times> 'k) option" where
  "find_field key fs =
     (case find (\<lambda>(tag, k). tag = key) fs of
        Some f \<Rightarrow> Some f
      | None \<Rightarrow> find (\<lambda>(tag, k). fold_name tag = fold_name key) fs)"

definition go_int :: "int \<Rightarrow> bool" where
  "go_int n = (- (2 ^ 63) \<le> n \<and> n < 2 ^ 63)"

text \<open>The kinds of the fields of the payload structs, and a value of each kind.\<close>

datatype kind = KString | KBool | KInt

datatype field_value = VString string | VBool bool | VInt int

text \<open>
  Storing a JSON value into a field of a kind: \<open>Inr None\<close> leaves the field, \<open>Inr (Some x)\<close>
  sets it, \<open>Inl\<close> is the type error.
\<close>

fun literal_store :: "kind \<Rightarrow> json \<Rightarrow> error + field_value option" where
  "literal_store k JNull = Inr None"
| "literal_store KString (JStr v) = Inr (Some (VString (coerce_utf8 v)))"
| "literal_store KBool (JBool v) = Inr (Some (VBool v))"
| "literal_store KInt (JNum v) = (if go_int v then Inr (Some (VInt v)) else Inl UnmarshalTypeError)"
| "literal_store k v = Inl UnmarshalTypeError"

definition save_error :: "error option \<Rightarrow> error \<Rightarrow> error option" where
  "save_error saved e = (case saved of None \<Rightarrow> Some e | Some e0 \<Rightarrow> Some e0)"

fun object_members ::
  "(string \<times> kind) list \<Rightarrow> (string \<times> json) list \<Rightarrow>
   (string \<rightharpoonup> field_value) \<times> error option \<Rightarrow> (string \<rightharpoonup> field_value) \<times> error option" where
  "object_members fs [] st = st"
| "object_members fs ((key, v) # ms) (vals, saved) =
     (case find_field key fs of
        None \<Rightarrow> object_members fs ms (vals, saved)
      | Some (tag, k) \<Rightarrow>
          (case literal_store k v of
             Inl e \<Rightarrow> object_members fs ms (vals, save_error saved e)
           | Inr None \<Rightarrow> object_members fs ms (vals, saved)
           | Inr (Some x) \<Rightarrow> object_members fs ms (vals(tag \<mapsto> x), saved)))"

text \<open>The target struct of a decode, by the name of its Go type, with its tagged fields.\<close>

datatype struct_type = T_SendMessagePayload | T_RoomPayload | T_ReadPayload | T_NewMessagePayload
  | T_TypingUpdatePayload | T_PresenceUpdatePayload | T_ReadReceiptPayload
  | T_UnreadUpdatePayload | T_MemberEventPayload | T_ErrorPayload

fun struct_fields :: "struct_type \<Rightarrow> (string \<times> kind) list" where
  "struct_fields T_SendMessagePayload = [(''room_id'', KString), (''content'', KString)]"
| "struct_fields T_RoomPayload = [(''room_id'', KString)]"
| "struct_fields T_ReadPayload = [(''room_id'', KString), (''timestamp'', KString)]"
| "struct_fields T_NewMessagePayload =
     [(''id'', KString), (''room_id'', KString), (''sender_id'', KString),
      (''sender_username'', KString), (''content'', KString), (''created_at'', KString)]"
| "struct_fields T_TypingUpdatePayload =
     [(''room_id'', KString), (''user_id'', KString), (''username'', KString),
      (''is_typing'', KBool)]"
| "struct_fields T_PresenceUpdatePayload =
     [(''user_id'', KString), (''username'', KString), (''status'', KString)]"
| "struct_fields T_ReadReceiptPayload =
     [(''room_id'', KString), (''user_id'', KString), (''username'', KString),
      (''last_read_at'', KString)]"
| "struct_fields T_UnreadUpdatePayload = [(''room_id'', KString), (''count'', KInt)]"
| "struct_fields T_MemberEventPayload =
     [(''room_id'', KString), (''user_id'', KString), (''username'', KString)]"
| "struct_fields T_ErrorPayload = [(''message'', KString), (''code'', KString)]"

text \<open>The fields read back; a field that was never set has the zero value of its kind.\<close>

definition get_string :: "(string \<rightharpoonup> field_value) \<Rightarrow> string \<Rightarrow> string" where
  "get_string vals tag = (case vals tag of Some (VString v) \<Rightarrow> v | _ \<Rightarrow> [])"

definition get_bool :: "(string \<rightharpoonup> field_value) \<Rightarrow> string \<Rightarrow> bool" where
  "get_bool vals tag = (case vals tag of Some (VBool v) \<Rightarrow> v | _ \<Rightarrow> False)"

definition get_int :: "(string \<rightharpoonup> field_value) \<Rightarrow> string \<Rightarrow> int" where
  "get_int vals tag = (case vals tag of Some (VInt v) \<Rightarrow> v | _ \<Rightarrow> 0)"

fun make_struct :: "struct_type \<Rightarrow> (string \<rightharpoonup> field_value) \<Rightarrow> payload" where
  "make_struct T_SendMessagePayload vals =
     SendMessagePayload (get_string vals ''room_id'') (get_string vals ''content'')"
| "make_struct T_RoomPayload vals = RoomPayload (get_string vals ''room_id'')"
| "make_struct T_ReadPayload vals =
     ReadPayload (get_string vals ''room_id'') (get_string vals ''timestamp'')"
| "make_struct T_NewMessagePayload vals =
     NewMessagePayload (get_string vals ''id'') (get_string vals ''room_id'')
       (get_string vals ''sender_id'') (get_string vals ''sender_username'')
       (get_string vals ''content'') (get_string vals ''created_at'')"
| "make_struct T_TypingUpdatePayload vals =
     TypingUpdatePayload (get_string vals ''room_id'') (get_string vals ''user_id'')
       (get_string vals ''username'') (get_bool vals ''is_typing'')"
| "make_struct T_PresenceUpdatePayload vals =
     PresenceUpdatePayload (get_string vals ''user_id'') (get_string vals ''username'')
       (get_string vals ''status'')"
| "make_struct T_ReadReceiptPayload vals =
     ReadReceiptPayload (get_string vals ''room_id'') (get_string vals ''user_id'')
       (get_string vals ''username'') (get_string vals ''last_read_at'')"
| "make_struct T_UnreadUpdatePayload vals =
     UnreadUpdatePayload (get_string vals ''room_id'') (get_int vals ''count'')"
| "make_struct T_MemberEventPayload vals =
     MemberEventPayload (get_string vals ''room_id'') (get_string vals ''user_id'')
       (get_string vals ''username'')"
| "make_struct T_ErrorPayload vals =
     ErrorPayload (get_string vals ''message'') (get_string vals ''code'')"

definition zero_value :: "struct_type \<Rightarrow> payload" where
  "zero_value ty = make_struct ty Map.empty"

text \<open>\<^verbatim>\<open>json.Unmarshal(msg.Payload, &payload)\<close> for a payload struct.\<close>

definition unmarshal_payload :: "struct_type \<Rightarrow> json option \<Rightarrow> error + payload" where
  "unmarshal_payload ty raw =
     (case raw of
        None \<Rightarrow> Inl SyntaxError
      | Some JNull \<Rightarrow> Inr (zero_value ty)
      | Some (JObj ms) \<Rightarrow>
          (case object_members (struct_fields ty) ms (Map.empty, None) of
             (vals, None) \<Rightarrow> Inr (make_struct ty vals)
           | (vals, Some e) \<Rightarrow> Inl e)
      | Some _ \<Rightarrow> Inl UnmarshalTypeError)"

text \<open>
  \<^verbatim>\<open>json.Unmarshal(message, &msg)\<close> in \<^verbatim>\<open>readPump\<close>. \<^verbatim>\<open>WSMessage\<close> has the string field
  tagged \<^verbatim>\<open>type\<close> and the raw message tagged \<^verbatim>\<open>payload\<close>, which takes the member's value
  as it stands, \<^verbatim>\<open>null\<close> included.
\<close>

datatype ws_field = F_Type | F_Payload

definition ws_fields :: "(string \<times> ws_field) list" where
  "ws_fields = [(''type'', F_Type), (''payload'', F_Payload)]"

fun ws_members ::
  "(string \<times> json) list \<Rightarrow> WSMessage \<times> error option \<Rightarrow> WSMessage \<times> error option" where
  "ws_members [] st = st"
| "ws_members ((key, v) # ms) (msg, saved) =
     (case find_field key ws_fields of
        None \<Rightarrow> ws_members ms (msg, saved)
      | Some (tag, F_Payload) \<Rightarrow> ws_members ms (msg\<lparr>Payload := Some v\<rparr>, saved)
      | Some (tag, F_Type) \<Rightarrow>
          (case literal_store KString v of
             Inr (Some (VString t)) \<Rightarrow> ws_members ms (msg\<lparr>Type := t\<rparr>, saved)
           | Inr _ \<Rightarrow> ws_members ms (msg, saved)
           | Inl e \<Rightarrow> ws_members ms (msg, save_error saved e)))"

definition unmarshal_WSMessage :: "json \<Rightarrow> error + WSMessage" where
  "unmarshal_WSMessage doc =
     (case doc of
        JNull \<Rightarrow> Inr \<lparr>Type = [], Payload = None\<rparr>
      | JObj ms \<Rightarrow>
          (case ws_members ms (\<lparr>Type = [], Payload = None\<rparr>, None) of
             (msg, None) \<Rightarrow> Inr msg
           | (msg, Some e) \<Rightarrow> Inl e)
      | _ \<Rightarrow> Inl UnmarshalTypeError)"

text \<open>
  \<^verbatim>\<open>handleMessage\<close>: the switch on the type tag; a payload that does not decode ends the
  call. The Go type of each decoded value fixes the constructor, so the other cases of
  the inner matches are never taken.
\<close>

definition handleMessage ::
  "(string \<Rightarrow> int option) \<Rightarrow> (int \<Rightarrow> string) \<Rightarrow> Hub \<Rightarrow> nat \<Rightarrow> WSMessage \<Rightarrow> panic + Hub" where
  "handleMessage time_Parse time_Format h c msg =
     (if Type msg = TypeMessageSend then
        (case unmarshal_payload T_SendMessagePayload (Payload msg) of
           Inr (SendMessagePayload roomID content) \<Rightarrow>
             HandleSendMessage time_Format h c roomID content
         | _ \<Rightarrow> Inr h)
      else if Type msg = TypeRoomJoin then
        (case unmarshal_payload T_RoomPayload (Payload msg) of
           Inr (RoomPayload roomID) \<Rightarrow> Inr (HandleRoomJoin h c roomID)
         | _ \<Rightarrow> Inr h)
      else if Type msg = TypeRoomLeave then
        (case unmarshal_payload T_RoomPayload (Payload msg) of
           Inr (RoomPayload roomID) \<Rightarrow> Inr (HandleRoomLeave h c roomID)
         | _ \<Rightarrow> Inr h)
      else if Type msg = TypeTypingStart then
        (case unmarshal_payload T_RoomPayload (Payload msg) of
           Inr (RoomPayload roomID) \<Rightarrow> Inr (HandleTyping h c roomID True)
         | _ \<Rightarrow> Inr h)
      else if Type msg = TypeTypingStop then
        (case unmarshal_payload T_RoomPayload (Payload msg) of
           Inr (RoomPayload roomID) \<Rightarrow> Inr (HandleTyping h c roomID False)
         | _ \<Rightarrow> Inr h)
      else if Type msg = TypeMessageRead then
        (case unmarshal_payload T_ReadPayload (Payload msg) of
           Inr (ReadPayload roomID timestamp) \<Rightarrow>
             HandleMessageRead time_Parse h c roomID timestamp
         | _ \<Rightarrow> Inr h)
      else if Type msg = TypePing then
        (case try_send (send (heap h c)) (ignore_err (NewWSMessage TypePong NilPayload)) of
           Sent ch \<Rightarrow> Inr (set_send h c ch)
         | Default \<Rightarrow> Inr h
         | Panicked e \<Rightarrow> Inl e)
      else Inr h)"

text \<open>The write pump takes the next frame off the client's queue, if there is one.\<close>

definition writePump_recv :: "Hub \<Rightarrow> nat \<Rightarrow> Hub" where
  "writePump_recv h c =
     (case chan_buf (send (heap h c)) of
        [] \<Rightarrow> h
      | message # pending \<Rightarrow> set_send h c ((send (heap h c))\<lparr>chan_buf := pending\<rparr>))"

section \<open>The running server\<close>

text \<open>
  What can happen next: a connection is accepted and registered, the read pump of a client
  exits and is unregistered, the Hub takes the next broadcast, the read pump of a client
  decodes a frame and dispatches it (a frame that does not decode is skipped), a started
  \<^verbatim>\<open>sendUnreadUpdates\<close> runs, or a write pump takes a frame. Each of them is taken as
  one step; the clients map is written by the Hub's loop alone. \<^verbatim>\<open>Shutdown\<close>, which
  ends the process, is not among them.
\<close>

datatype action = Connect string string | Disconnect nat | Fanout | Inbound nat json
  | RunSpawned | Written nat

fun exec ::
  "(string \<Rightarrow> int option) \<Rightarrow> (int \<Rightarrow> string) \<Rightarrow> Hub \<Rightarrow> action \<Rightarrow> panic + Hub" where
  "exec time_Parse time_Format h (Connect userID username) =
     (let (c, h1) = ServeWS h userID username in Run_step h1 (RecvRegister c))"
| "exec time_Parse time_Format h (Disconnect c) = Run_step h (RecvUnregister c)"
| "exec time_Parse time_Format h Fanout = Run_step h RecvBroadcast"
| "exec time_Parse time_Format h (Inbound c message) =
     (case unmarshal_WSMessage message of
        Inl err \<Rightarrow> Inr h
      | Inr msg \<Rightarrow> handleMessage time_Parse time_Format h c msg)"
| "exec time_Parse time_Format h RunSpawned =
     (case spawned h of
        [] \<Rightarrow> Inr h
      | (roomID, senderID) # pending \<Rightarrow>
          sendUnreadUpdates (h\<lparr>spawned := pending\<rparr>) roomID senderID)"
| "exec time_Parse time_Format h (Written c) = Inr (writePump_recv h c)"

fun execute ::
  "(string \<Rightarrow> int option) \<Rightarrow> (int \<Rightarrow> string) \<Rightarrow> Hub \<Rightarrow> action list \<Rightarrow> panic + Hub" where
  "execute time_Parse time_Format h [] = Inr h"
| "execute time_Parse time_Format h (a # as) =
     and_then (exec time_Parse time_Format h a) (\<lambda>h1. execute time_Parse time_Format h1 as)"

section \<open>Predicates of the specification and sample states\<close>

text \<open>A string of bytes below 80.\<close>

definition ascii :: "string \<Rightarrow> bool" where
  "ascii s = list_all (\<lambda>c. (of_char c :: nat) < 0x80) s"

text \<open>
  The keys of the clients map are distinct; every entry points at a client object that
  carries the key as its user id, has an open outbound queue and has been allocated.
\<close>

definition hub_inv :: "Hub \<Rightarrow> bool" where
  "hub_inv h =
     (distinct (map fst (clients h)) \<and>
      list_all (\<lambda>(u, c). UserID (heap h c) = u \<and> \<not> chan_closed (send (heap h c)) \<and> c < brk h)
        (clients h))"

text \<open>Every entry of a list of map entries points at a client whose queue is open.\<close>

definition all_open :: "Hub \<Rightarrow> (string \<times> nat) list \<Rightarrow> bool" where
  "all_open h es = list_all (\<lambda>(u, c). \<not> chan_closed (send (heap h c))) es"

text \<open>The parts of the state that the Hub's own loop never writes.\<close>

definition frame_eq :: "Hub \<Rightarrow> Hub \<Rightarrow> bool" where
  "frame_eq h h' =
     (broadcast h' = broadcast h \<and> DB h' = DB h \<and> brk h' = brk h \<and> spawned h' = spawned h)"

text \<open>
  The effect of one visit of the broadcast loop on a client object: \<open>enqueue\<close> appends a
  frame to its queue, \<open>shut\<close> closes the queue. The loop targets a client that is not the
  excluded user and is subscribed to the room, and evicts a targeted client whose queue
  is full.
\<close>

definition enqueue :: "json \<Rightarrow> Client \<Rightarrow> Client" where
  "enqueue data c = c\<lparr>send := (send c)\<lparr>chan_buf := chan_buf (send c) @ [data]\<rparr>\<rparr>"

definition shut :: "Client \<Rightarrow> Client" where
  "shut c = c\<lparr>send := (send c)\<lparr>chan_closed := True\<rparr>\<rparr>"

definition targeted :: "BroadcastMessage \<Rightarrow> string \<Rightarrow> Client \<Rightarrow> bool" where
  "targeted msg userID c = (userID \<noteq> ExcludeUserID msg \<and> RoomID msg \<in> rooms c)"

definition evicts :: "BroadcastMessage \<Rightarrow> string \<Rightarrow> Client \<Rightarrow> bool" where
  "evicts msg userID c = (targeted msg userID c \<and> chan_full (send c))"

definition visit :: "BroadcastMessage \<Rightarrow> string \<Rightarrow> Client \<Rightarrow> Client" where
  "visit msg userID c =
     (if targeted msg userID c
      then (if chan_full (send c) then shut c else enqueue (Data msg) c)
      else c)"

text \<open>
  Two states with the same clients map and the same allocation mark, in which every client
  object has kept its user id and the open or closed state of its queue.
\<close>

definition same_sessions :: "Hub \<Rightarrow> Hub \<Rightarrow> bool" where
  "same_sessions h h' =
     (clients h' = clients h \<and> brk h' = brk h \<and>
      (\<forall>p. UserID (heap h' p) = UserID (heap h p)
           \<and> chan_closed (send (heap h' p)) = chan_closed (send (heap h p))))"


text \<open>A store with two users, both members of room r1, and no messages.\<close>

definition sample_db :: db where
  "sample_db = \<lparr>tbl_users = [\<lparr>user_id = ''u1'', user_username = ''alice''\<rparr>,
                              \<lparr>user_id = ''u2'', user_username = ''bob''\<rparr>],
                 tbl_rooms = [''r1''],
                 tbl_room_members = [\<lparr>rm_room_id = ''r1'', rm_user_id = ''u1'', rm_joined_at = 0, rm_last_read_at = 0\<rparr>,
                                     \<lparr>rm_room_id = ''r1'', rm_user_id = ''u2'', rm_joined_at = 0, rm_last_read_at = 0\<rparr>],
                 tbl_messages = [], clock = 5, uuid_source = (\<lambda>n. if n = 0 then ''m1'' else ''m2''), uuid_used = 0, faults = []\<rparr>"








text \<open>
  The client's view of presence (the \<^verbatim>\<open>presence.update\<close> handler of the chat context in
  the front end): status \<^verbatim>\<open>online\<close> adds the user id to the set of online users, any other
  status removes it.
\<close>

definition on_frame :: "string set \<Rightarrow> json \<Rightarrow> string set" where
  "on_frame online doc =
     (case unmarshal_WSMessage doc of
        Inr msg \<Rightarrow>
          (if Type msg = TypePresenceUpdate then
             (case unmarshal_payload T_PresenceUpdatePayload (Payload msg) of
                Inr (PresenceUpdatePayload uid username status) \<Rightarrow>
                  (if status = ''online'' then insert uid online else online - {uid})
              | _ \<Rightarrow> online)
           else online)
      | Inl err \<Rightarrow> online)"

definition onlineUsers :: "json list \<Rightarrow> string set" where
  "onlineUsers frames = foldl on_frame {} frames"

text \<open>The primary keys of migrations.go: one membership row per (room, user), one message row per id.\<close>

definition member_key :: "member_row \<Rightarrow> string \<times> string" where
  "member_key rm = (rm_room_id rm, rm_user_id rm)"

definition primary_keys :: "db \<Rightarrow> bool" where
  "primary_keys d =
     (distinct (map member_key (tbl_room_members d)) \<and> distinct (map m_id (tbl_messages d)))"

text \<open>The stored \<open>last_read_at\<close> of a (room, user) pair, if it has a membership row.\<close>

definition last_read_at :: "db \<Rightarrow> string \<Rightarrow> string \<Rightarrow> int option" where
  "last_read_at d roomID userID =
     map_option rm_last_read_at (find (is_member_row roomID userID) (tbl_room_members d))"

text \<open>The filter of the unread count on a message row, given the reader's \<open>last_read_at\<close>.\<close>

definition is_unread :: "string \<Rightarrow> string \<Rightarrow> int \<Rightarrow> message_row \<Rightarrow> bool" where
  "is_unread roomID userID last_read m =
     (m_room_id m = roomID \<and> m_created_at m > last_read \<and> m_sender_id m \<noteq> userID)"

text \<open>
  A store with rooms r1 and r2: u1 is a member of r1, u2 of both, with \<open>last_read_at = 10\<close>
  in r1; three messages in r1 and one in r2.
\<close>

definition read_db :: db where
  "read_db =
     \<lparr>tbl_users = [\<lparr>user_id = ''u1'', user_username = ''alice''\<rparr>,
                   \<lparr>user_id = ''u2'', user_username = ''bob''\<rparr>],
      tbl_rooms = [''r1'', ''r2''],
      tbl_room_members =
        [\<lparr>rm_room_id = ''r1'', rm_user_id = ''u1'', rm_joined_at = 0, rm_last_read_at = 0\<rparr>,
         \<lparr>rm_room_id = ''r1'', rm_user_id = ''u2'', rm_joined_at = 0, rm_last_read_at = 10\<rparr>,
         \<lparr>rm_room_id = ''r2'', rm_user_id = ''u2'', rm_joined_at = 0, rm_last_read_at = 0\<rparr>],
      tbl_messages =
        [\<lparr>m_id = ''m1'', m_room_id = ''r1'', m_sender_id = ''u1'', m_content = ''a'', m_created_at = 3\<rparr>,
         \<lparr>m_id = ''m2'', m_room_id = ''r1'', m_sender_id = ''u1'', m_content = ''b'', m_created_at = 12\<rparr>,
         \<lparr>m_id = ''m3'', m_room_id = ''r1'', m_sender_id = ''u2'', m_content = ''c'', m_created_at = 15\<rparr>,
         \<lparr>m_id = ''m4'', m_room_id = ''r2'', m_sender_id = ''u1'', m_content = ''d'', m_created_at = 20\<rparr>],
      clock = 30, uuid_source = (\<lambda>n. ''m5''), uuid_used = 0, faults = []\<rparr>"

text \<open>A parser that knows one timestamp, for the concrete runs below.\<close>

definition parse_five :: "string \<Rightarrow> int option" where
  "parse_five s = (if s = ''1970-01-01T00:00:05Z'' then Some 5 else None)"

text \<open>A Hub over \<open>read_db\<close> with one session, of user u2, at address 0.\<close>

definition reader_hub :: Hub where
  "reader_hub =
     \<lparr>clients = [(''u2'', 0)], broadcast = [], DB = read_db,
      heap = (\<lambda>_. \<lparr>UserID = ''u2'', Username = ''bob'', rooms = {''r1'', ''r2''},
                    send = make_chan 256\<rparr>),
      brk = 1, spawned = []\<rparr>"

text \<open>
  \<open>silent h h'\<close>: between the two states no frame was put on any client's queue and
  nothing was published or started. \<open>replied h h' c frames\<close>: the only emission is that
  \<open>frames\<close> were appended to the queue of the client at \<open>c\<close>.
\<close>

definition silent :: "Hub \<Rightarrow> Hub \<Rightarrow> bool" where
  "silent h h' =
     (heap h' = heap h \<and> broadcast h' = broadcast h \<and> clients h' = clients h
      \<and> spawned h' = spawned h)"

definition replied :: "Hub \<Rightarrow> Hub \<Rightarrow> nat \<Rightarrow> json list \<Rightarrow> bool" where
  "replied h h' c frames =
     (heap h' = (heap h)(c := (heap h c)\<lparr>send :=
         (send (heap h c))\<lparr>chan_buf := chan_buf (send (heap h c)) @ frames\<rparr>\<rparr>)
      \<and> broadcast h' = broadcast h \<and> clients h' = clients h \<and> spawned h' = spawned h)"

text \<open>The frames the handlers build.\<close>

definition error_frame :: "string \<Rightarrow> string \<Rightarrow> json" where
  "error_frame message code = ignore_err (NewWSMessage TypeError (ErrorPayload message code))"

definition read_receipt_frame :: "string \<Rightarrow> string \<Rightarrow> string \<Rightarrow> string \<Rightarrow> json" where
  "read_receipt_frame roomID userID username timestamp =
     ignore_err (NewWSMessage TypeReadReceipt (ReadReceiptPayload roomID userID username timestamp))"

definition typing_frame :: "string \<Rightarrow> string \<Rightarrow> string \<Rightarrow> bool \<Rightarrow> json" where
  "typing_frame roomID userID username isTyping =
     ignore_err (NewWSMessage TypeTypingUpdate (TypingUpdatePayload roomID userID username isTyping))"

definition member_left_frame :: "string \<Rightarrow> string \<Rightarrow> string \<Rightarrow> json" where
  "member_left_frame roomID userID username =
     ignore_err (NewWSMessage TypeRoomMemberLeft (MemberEventPayload roomID userID username))"

text \<open>The \<^verbatim>\<open>unread.update\<close> frame, and the update of the membership table by a mark-read.\<close>

definition unread_frame :: "string \<Rightarrow> int \<Rightarrow> json" where
  "unread_frame roomID n = ignore_err (NewWSMessage TypeUnreadUpdate (UnreadUpdatePayload roomID n))"

definition marked_rows :: "string \<Rightarrow> string \<Rightarrow> int \<Rightarrow> member_row list \<Rightarrow> member_row list" where
  "marked_rows roomID userID t rows =
     map (\<lambda>rm. if is_member_row roomID userID rm then rm\<lparr>rm_last_read_at := t\<rparr> else rm) rows"

text \<open>
  \<open>receipt_published h h' c roomID timestamp\<close>: the read receipt of the client at \<open>c\<close> was
  appended to the broadcast channel, with that client's user excluded.
\<close>

definition receipt_published :: "Hub \<Rightarrow> Hub \<Rightarrow> nat \<Rightarrow> string \<Rightarrow> string \<Rightarrow> bool" where
  "receipt_published h h' c roomID timestamp =
     (broadcast h' = broadcast h @
        [\<lparr>RoomID = roomID,
          Data = read_receipt_frame roomID (UserID (heap h c)) (Username (heap h c)) timestamp,
          ExcludeUserID = UserID (heap h c)\<rparr>]
      \<and> clients h' = clients h \<and> spawned h' = spawned h)"

text \<open>Two connected users over \<open>read_db\<close>: u1 is a member of r1 only, u2 of r1 and r2.\<close>

definition two_hub :: Hub where
  "two_hub =
     \<lparr>clients = [(''u1'', 0), (''u2'', 1)], broadcast = [], DB = read_db,
      heap = (\<lambda>p. if p = 0
                  then \<lparr>UserID = ''u1'', Username = ''alice'', rooms = {''r1''},
                        send = make_chan 256\<rparr>
                  else \<lparr>UserID = ''u2'', Username = ''bob'', rooms = {''r1'', ''r2''},
                        send = make_chan 256\<rparr>),
      brk = 2, spawned = []\<rparr>"

text \<open>The same Hub as \<open>reader_hub\<close> when the driver fails the next statement.\<close>

definition faulty_hub :: Hub where
  "faulty_hub = reader_hub\<lparr>DB := read_db\<lparr>faults := [True]\<rparr>\<rparr>"

text \<open>The same Hub when the driver serves the next statement and fails the one after.\<close>

definition append_fault_hub :: Hub where
  "append_fault_hub = reader_hub\<lparr>DB := read_db\<lparr>faults := [False, True]\<rparr>\<rparr>"

text \<open>The user holds a membership row for the room.\<close>

definition persisted_member :: "db \<Rightarrow> string \<Rightarrow> string \<Rightarrow> bool" where
  "persisted_member d roomID userID = list_ex (is_member_row roomID userID) (tbl_room_members d)"

text \<open>
  \<open>error_reply h r c message code\<close>: \<open>r\<close> is the outcome of offering the error frame to the
  queue of the client at \<open>c\<close> and emitting nothing else: a panic when that queue is closed;
  otherwise the frame is appended when the queue has room and dropped when it is full,
  and nothing is published or started.
\<close>

definition error_reply :: "Hub \<Rightarrow> panic + Hub \<Rightarrow> nat \<Rightarrow> string \<Rightarrow> string \<Rightarrow> bool" where
  "error_reply h r c message code =
     (case r of
        Inl e \<Rightarrow> chan_closed (send (heap h c)) \<and> e = SendOnClosedChannel
      | Inr h' \<Rightarrow>
          \<not> chan_closed (send (heap h c))
          \<and> broadcast h' = broadcast h \<and> clients h' = clients h \<and> spawned h' = spawned h
          \<and> heap h' =
              (if chan_full (send (heap h c)) then heap h
               else (heap h)(c := (heap h c)\<lparr>send := (send (heap h c))\<lparr>chan_buf :=
                      chan_buf (send (heap h c)) @ [error_frame message code]\<rparr>\<rparr>)))"

text \<open>\<open>two_hub\<close> when the driver fails the next statement.\<close>

definition two_faulty_hub :: Hub where
  "two_faulty_hub = two_hub\<lparr>DB := read_db\<lparr>faults := [True]\<rparr>\<rparr>"

text \<open>The Go type of a payload value; \<open>None\<close> for \<^verbatim>\<open>nil\<close>.\<close>

fun struct_of :: "payload \<Rightarrow> struct_type option" where
  "struct_of NilPayload = None"
| "struct_of (SendMessagePayload _ _) = Some T_SendMessagePayload"
| "struct_of (RoomPayload _) = Some T_RoomPayload"
| "struct_of (ReadPayload _ _) = Some T_ReadPayload"
| "struct_of (NewMessagePayload _ _ _ _ _ _) = Some T_NewMessagePayload"
| "struct_of (TypingUpdatePayload _ _ _ _) = Some T_TypingUpdatePayload"
| "struct_of (PresenceUpdatePayload _ _ _) = Some T_PresenceUpdatePayload"
| "struct_of (ReadReceiptPayload _ _ _ _) = Some T_ReadReceiptPayload"
| "struct_of (UnreadUpdatePayload _ _) = Some T_UnreadUpdatePayload"
| "struct_of (MemberEventPayload _ _ _) = Some T_MemberEventPayload"
| "struct_of (ErrorPayload _ _) = Some T_ErrorPayload"

text \<open>
  A payload value of the wire schema: every string field is valid UTF-8 and the count of
  an unread update is a 64-bit integer.
\<close>

fun wire_value :: "payload \<Rightarrow> bool" where
  "wire_value NilPayload = True"
| "wire_value (SendMessagePayload a b) = (utf8_valid a \<and> utf8_valid b)"
| "wire_value (RoomPayload a) = utf8_valid a"
| "wire_value (ReadPayload a b) = (utf8_valid a \<and> utf8_valid b)"
| "wire_value (NewMessagePayload a b c d e f) =
     (utf8_valid a \<and> utf8_valid b \<and> utf8_valid c \<and> utf8_valid d \<and> utf8_valid e \<and> utf8_valid f)"
| "wire_value (TypingUpdatePayload a b c t) = (utf8_valid a \<and> utf8_valid b \<and> utf8_valid c)"
| "wire_value (PresenceUpdatePayload a b c) = (utf8_valid a \<and> utf8_valid b \<and> utf8_valid c)"
| "wire_value (ReadReceiptPayload a b c d) =
     (utf8_valid a \<and> utf8_valid b \<and> utf8_valid c \<and> utf8_valid d)"
| "wire_value (UnreadUpdatePayload a n) = (utf8_valid a \<and> go_int n)"
| "wire_value (MemberEventPayload a b c) = (utf8_valid a \<and> utf8_valid b \<and> utf8_valid c)"
| "wire_value (ErrorPayload a b) = (utf8_valid a \<and> utf8_valid b)"

section \<open>UTF-8 strings\<close>

lemma coerce_utf8_Nil [simp]: "coerce_utf8 [] = []"
  by (simp add: coerce_utf8.simps)

lemma utf8_valid_Nil [simp]: "utf8_valid []"
  by (simp add: utf8_valid.simps)

lemma coerce_utf8_valid: "utf8_valid s \<Longrightarrow> coerce_utf8 s = s"
proof (induction s rule: utf8_valid.induct)
  case (1 s)
  show ?case
  proof (cases "s = []")
    case True
    then show ?thesis by simp
  next
    case False
    with "1.prems" have w: "rune_width s \<noteq> 0" and rest: "utf8_valid (drop (rune_width s) s)"
      by (simp_all add: utf8_valid.simps [of s] split: if_splits)
    from "1.IH" [OF False w rest] have "coerce_utf8 (drop (rune_width s) s) = drop (rune_width s) s" .
    with False w show ?thesis by (simp add: coerce_utf8.simps [of s])
  qed
qed

lemma ascii_valid: "ascii s \<Longrightarrow> utf8_valid s"
proof (induction s)
  case Nil
  then show ?case by simp
next
  case (Cons c cs)
  then have "rune_width (c # cs) = 1" "utf8_valid cs" by (simp_all add: ascii_def)
  then show ?case by (simp add: utf8_valid.simps [of "c # cs"])
qed

lemma coerce_utf8_ascii: "ascii s \<Longrightarrow> coerce_utf8 s = s"
  by (simp add: ascii_valid coerce_utf8_valid)

section \<open>Invariant of the Hub\<close>

lemma try_send_cases:
  "try_send ch v = (if chan_closed ch then Panicked SendOnClosedChannel
     else if chan_full ch then Default else Sent (ch\<lparr>chan_buf := chan_buf ch @ [v]\<rparr>))"
  by (simp add: try_send_def chan_full_def)

lemma set_send_simps [simp]:
  "clients (set_send h c ch) = clients h"
  "broadcast (set_send h c ch) = broadcast h"
  "DB (set_send h c ch) = DB h"
  "brk (set_send h c ch) = brk h"
  "spawned (set_send h c ch) = spawned h"
  "heap (set_send h c ch) p = (if p = c then (heap h c)\<lparr>send := ch\<rparr> else heap h p)"
  by (simp_all add: set_send_def)

lemma close_send_open:
  "\<not> chan_closed (send (heap h c)) \<Longrightarrow>
   close_send h c = Inr (set_send h c ((send (heap h c))\<lparr>chan_closed := True\<rparr>))"
  by (simp add: close_send_def close_chan_def)

lemma presence_loop_exact:
  "distinct (map snd es) \<Longrightarrow> all_open h es \<Longrightarrow>
   \<exists>h'. presence_loop data es h = Inr h' \<and> clients h' = clients h \<and> frame_eq h h'
     \<and> (\<forall>p. heap h' p = (if p \<in> snd ` set es \<and> \<not> chan_full (send (heap h p))
                          then enqueue data (heap h p) else heap h p))"
proof (induction es arbitrary: h)
  case Nil
  then show ?case by (simp add: frame_eq_def)
next
  case (Cons e es)
  obtain u c where e: "e = (u, c)" by (cases e)
  from Cons.prems e have op: "\<not> chan_closed (send (heap h c))" and rest: "all_open h es"
    and fresh: "c \<notin> snd ` set es" and dist: "distinct (map snd es)"
    by (auto simp: all_open_def)
  show ?case
  proof (cases "chan_full (send (heap h c))")
    case True
    from Cons.IH [OF dist rest] obtain h' where
      "presence_loop data es h = Inr h'" "clients h' = clients h" "frame_eq h h'"
      "\<forall>p. heap h' p = (if p \<in> snd ` set es \<and> \<not> chan_full (send (heap h p))
                          then enqueue data (heap h p) else heap h p)"
      by blast
    with True op e show ?thesis by (auto simp add: try_send_cases)
  next
    case False
    let ?h1 = "set_send h c ((send (heap h c))\<lparr>chan_buf := chan_buf (send (heap h c)) @ [data]\<rparr>)"
    have "all_open ?h1 es" using rest by (auto simp: all_open_def list_all_iff)
    from Cons.IH [OF dist this] obtain h' where h':
      "presence_loop data es ?h1 = Inr h'" "clients h' = clients ?h1" "frame_eq ?h1 h'"
      "\<forall>p. heap h' p = (if p \<in> snd ` set es \<and> \<not> chan_full (send (heap ?h1 p))
                          then enqueue data (heap ?h1 p) else heap ?h1 p)"
      by blast
    have "\<forall>p. heap h' p = (if p \<in> snd ` set (e # es) \<and> \<not> chan_full (send (heap h p))
                          then enqueue data (heap h p) else heap h p)"
    proof
      fix p
      show "heap h' p = (if p \<in> snd ` set (e # es) \<and> \<not> chan_full (send (heap h p))
                          then enqueue data (heap h p) else heap h p)"
        using h'(4) [rule_format, of p] fresh False e
        by (cases "p = c") (auto simp: enqueue_def)
    qed
    then show ?thesis using False op e h'(1,2,3)
      by (simp add: try_send_cases frame_eq_def)
  qed
qed

lemma broadcast_loop_exact:
  "distinct (map snd es) \<Longrightarrow> all_open h es \<Longrightarrow>
   \<exists>h'. broadcast_loop msg es h = Inr h' \<and> frame_eq h h'
     \<and> (\<forall>p. p \<notin> snd ` set es \<longrightarrow> heap h' p = heap h p)
     \<and> (\<forall>(u, p) \<in> set es. heap h' p = visit msg u (heap h p))
     \<and> clients h' =
         filter (\<lambda>(k, c). \<not> (\<exists>p. (k, p) \<in> set es \<and> evicts msg k (heap h p))) (clients h)"
proof (induction es arbitrary: h)
  case Nil
  then show ?case by (simp add: frame_eq_def)
next
  case (Cons e es)
  obtain u c where e: "e = (u, c)" by (cases e)
  from Cons.prems e have op: "\<not> chan_closed (send (heap h c))" and rest: "all_open h es"
    and fresh: "c \<notin> snd ` set es" and dist: "distinct (map snd es)"
    by (auto simp: all_open_def)
  from fresh have mem: "\<And>a. (a, c) \<notin> set es" by force
  show ?case
  proof (cases "targeted msg u (heap h c)")
    case False
    from Cons.IH [OF dist rest] obtain h' where h':
      "broadcast_loop msg es h = Inr h'" "frame_eq h h'"
      "\<forall>p. p \<notin> snd ` set es \<longrightarrow> heap h' p = heap h p"
      "\<forall>(u, p) \<in> set es. heap h' p = visit msg u (heap h p)"
      "clients h' =
         filter (\<lambda>(k, c). \<not> (\<exists>p. (k, p) \<in> set es \<and> evicts msg k (heap h p))) (clients h)"
      by blast
    have run: "broadcast_loop msg (e # es) h = Inr h'"
      using False e h'(1) by (auto simp: targeted_def)
    have "heap h' c = visit msg u (heap h c)"
      using False fresh h'(3) by (simp add: visit_def)
    moreover have "clients h' =
         filter (\<lambda>(k, c). \<not> (\<exists>p. (k, p) \<in> set (e # es) \<and> evicts msg k (heap h p))) (clients h)"
      using h'(5) False e by (auto simp: evicts_def intro!: filter_cong)
    ultimately show ?thesis using run h'(2,3,4) e by auto
  next
    case True
    show ?thesis
    proof (cases "chan_full (send (heap h c))")
      case full: True
      let ?h1 = "set_send h c ((send (heap h c))\<lparr>chan_closed := True\<rparr>)"
      let ?h2 = "?h1\<lparr>clients := AList.delete u (clients ?h1)\<rparr>"
      have same: "\<And>p. p \<noteq> c \<Longrightarrow> heap ?h2 p = heap h p" by simp
      have "all_open ?h2 es" using rest mem
        by (auto simp: all_open_def list_all_iff)
      from Cons.IH [OF dist this] obtain h' where h':
        "broadcast_loop msg es ?h2 = Inr h'" "frame_eq ?h2 h'"
        "\<forall>p. p \<notin> snd ` set es \<longrightarrow> heap h' p = heap ?h2 p"
        "\<forall>(u, p) \<in> set es. heap h' p = visit msg u (heap ?h2 p)"
        "clients h' =
           filter (\<lambda>(k, c). \<not> (\<exists>p. (k, p) \<in> set es \<and> evicts msg k (heap ?h2 p))) (clients ?h2)"
        by blast
      have run: "broadcast_loop msg (e # es) h = Inr h'"
        using True full op e h'(1) by (simp add: targeted_def try_send_cases close_send_open)
      have c: "heap h' c = visit msg u (heap h c)"
        using True full fresh h'(3) by (simp add: visit_def shut_def)
      have others: "\<forall>(u, p) \<in> set es. heap h' p = visit msg u (heap h p)"
      proof (clarify)
        fix a b assume ab: "(a, b) \<in> set es"
        then have "b \<noteq> c" using mem by blast
        moreover from h'(4) ab have "heap h' b = visit msg a (heap ?h2 b)" by blast
        ultimately show "heap h' b = visit msg a (heap h b)" by simp
      qed
      have ek: "\<And>k. (\<exists>p. (k, p) \<in> set es \<and> evicts msg k (heap ?h2 p))
                  = (\<exists>p. (k, p) \<in> set es \<and> evicts msg k (heap h p))"
      proof -
        fix k
        have "\<And>p. (k, p) \<in> set es \<Longrightarrow> heap ?h2 p = heap h p" using mem by auto
        then show "(\<exists>p. (k, p) \<in> set es \<and> evicts msg k (heap ?h2 p))
                  = (\<exists>p. (k, p) \<in> set es \<and> evicts msg k (heap h p))" by metis
      qed
      have "clients h' =
         filter (\<lambda>(k, c). \<not> (\<exists>p. (k, p) \<in> set (e # es) \<and> evicts msg k (heap h p))) (clients h)"
        using True full e unfolding h'(5) ek
        by (auto simp: AList.delete_eq evicts_def intro!: filter_cong)
      then show ?thesis using run h'(2,3) c others e by (auto simp: frame_eq_def)
    next
      case notfull: False
      let ?h1 = "set_send h c ((send (heap h c))\<lparr>chan_buf := chan_buf (send (heap h c)) @ [Data msg]\<rparr>)"
      have "all_open ?h1 es" using rest mem
        by (auto simp: all_open_def list_all_iff)
      from Cons.IH [OF dist this] obtain h' where h':
        "broadcast_loop msg es ?h1 = Inr h'" "frame_eq ?h1 h'"
        "\<forall>p. p \<notin> snd ` set es \<longrightarrow> heap h' p = heap ?h1 p"
        "\<forall>(u, p) \<in> set es. heap h' p = visit msg u (heap ?h1 p)"
        "clients h' =
           filter (\<lambda>(k, c). \<not> (\<exists>p. (k, p) \<in> set es \<and> evicts msg k (heap ?h1 p))) (clients ?h1)"
        by blast
      have run: "broadcast_loop msg (e # es) h = Inr h'"
        using True notfull op e h'(1) by (simp add: targeted_def try_send_cases)
      have c: "heap h' c = visit msg u (heap h c)"
        using True notfull fresh h'(3) by (simp add: visit_def enqueue_def)
      have others: "\<forall>(u, p) \<in> set es. heap h' p = visit msg u (heap h p)"
      proof (clarify)
        fix a b assume ab: "(a, b) \<in> set es"
        then have "b \<noteq> c" using mem by blast
        moreover from h'(4) ab have "heap h' b = visit msg a (heap ?h1 b)" by blast
        ultimately show "heap h' b = visit msg a (heap h b)" by simp
      qed
      have ek: "\<And>k. (\<exists>p. (k, p) \<in> set es \<and> evicts msg k (heap ?h1 p))
                  = (\<exists>p. (k, p) \<in> set es \<and> evicts msg k (heap h p))"
      proof -
        fix k
        have "\<And>p. (k, p) \<in> set es \<Longrightarrow> heap ?h1 p = heap h p" using mem by auto
        then show "(\<exists>p. (k, p) \<in> set es \<and> evicts msg k (heap ?h1 p))
                  = (\<exists>p. (k, p) \<in> set es \<and> evicts msg k (heap h p))" by metis
      qed
      have "clients h' =
         filter (\<lambda>(k, c). \<not> (\<exists>p. (k, p) \<in> set (e # es) \<and> evicts msg k (heap h p))) (clients h)"
        using True notfull e unfolding h'(5) ek
        by (auto simp: evicts_def intro!: filter_cong)
      then show ?thesis using run h'(2,3) c others e by (auto simp: frame_eq_def)
    qed
  qed
qed

lemma same_sessions_refl [simp]: "same_sessions h h"
  by (simp add: same_sessions_def)


lemma same_sessions_inv: "hub_inv h \<Longrightarrow> same_sessions h h' \<Longrightarrow> hub_inv h'"
  by (simp add: hub_inv_def same_sessions_def list_all_iff)

lemma hub_inv_entry:
  "hub_inv h \<Longrightarrow> (u, c) \<in> set (clients h) \<Longrightarrow>
   UserID (heap h c) = u \<and> \<not> chan_closed (send (heap h c)) \<and> c < brk h"
  by (auto simp: hub_inv_def list_all_iff)

lemma hub_inv_distinct_ptrs: "hub_inv h \<Longrightarrow> distinct (map snd (clients h))"
proof -
  assume inv: "hub_inv h"
  have "inj_on snd (set (clients h))"
  proof (rule inj_onI)
    fix x y assume x: "x \<in> set (clients h)" and y: "y \<in> set (clients h)"
      and eq: "snd x = snd y"
    from hub_inv_entry [OF inv, of "fst x" "snd x"] x
    have "UserID (heap h (snd x)) = fst x" by simp
    moreover from hub_inv_entry [OF inv, of "fst y" "snd y"] y
    have "UserID (heap h (snd y)) = fst y" by simp
    ultimately show "x = y" using eq by (simp add: prod_eq_iff)
  qed
  moreover from inv have "distinct (clients h)"
    by (simp add: hub_inv_def distinct_map)
  ultimately show ?thesis by (simp add: distinct_map)
qed

lemma hub_inv_all_open: "hub_inv h \<Longrightarrow> all_open h (clients h)"
  by (auto simp: hub_inv_def all_open_def list_all_iff)


lemma broadcastPresence_exact:
  "hub_inv h \<Longrightarrow>
   \<exists>h'. broadcastPresence h u n s = Inr h' \<and> clients h' = clients h \<and> frame_eq h h'
     \<and> (\<forall>p. heap h' p =
            (if p \<in> snd ` set (clients h) \<and> \<not> chan_full (send (heap h p))
             then enqueue (ignore_err (NewWSMessage TypePresenceUpdate (PresenceUpdatePayload u n s)))
                    (heap h p)
             else heap h p))"
  using presence_loop_exact [OF hub_inv_distinct_ptrs hub_inv_all_open, of h
      "ignore_err (NewWSMessage TypePresenceUpdate (PresenceUpdatePayload u n s))"]
  by (auto simp: broadcastPresence_def NewWSMessage_def ignore_err_def Let_def)

lemma set_update_distinct:
  "distinct (map fst al) \<Longrightarrow>
   set (AList.update k v al) = insert (k, v) {e \<in> set al. fst e \<noteq> k}"
  by (induction al) (auto simp: image_iff)

lemma enqueue_simps [simp]:
  "UserID (enqueue d c) = UserID c" "Username (enqueue d c) = Username c"
  "rooms (enqueue d c) = rooms c" "chan_closed (send (enqueue d c)) = chan_closed (send c)"
  "chan_buf (send (enqueue d c)) = chan_buf (send c) @ [d]"
  by (simp_all add: enqueue_def)

lemma broadcastPresence_same:
  assumes "hub_inv h"
  shows "\<exists>h'. broadcastPresence h u n s = Inr h' \<and> same_sessions h h' \<and> frame_eq h h'
           \<and> (\<forall>p. rooms (heap h' p) = rooms (heap h p))"
proof -
  from broadcastPresence_exact [OF assms, of u n s] obtain h' where
    "broadcastPresence h u n s = Inr h'" "clients h' = clients h" "frame_eq h h'"
    "\<forall>p. heap h' p =
            (if p \<in> snd ` set (clients h) \<and> \<not> chan_full (send (heap h p))
             then enqueue (ignore_err (NewWSMessage TypePresenceUpdate (PresenceUpdatePayload u n s)))
                    (heap h p)
             else heap h p)"
    by blast
  then show ?thesis by (simp add: same_sessions_def frame_eq_def)
qed

lemma run_register_ok:
  assumes inv: "hub_inv h" and fresh: "c \<notin> snd ` set (clients h)"
    and op: "\<not> chan_closed (send (heap h c))" and lt: "c < brk h"
  shows "\<exists>h'. run_register h c = Inr h' \<and> hub_inv h' \<and> frame_eq h h'
           \<and> map_of (clients h') (UserID (heap h c)) = Some c
           \<and> UserID (heap h' c) = UserID (heap h c)
           \<and> \<not> chan_closed (send (heap h' c))
           \<and> (\<forall>old. map_of (clients h) (UserID (heap h c)) = Some old
                  \<longrightarrow> old \<noteq> c \<and> chan_closed (send (heap h' old)))"
proof -
  let ?uid = "UserID (heap h c)"
  from inv have dist: "distinct (map fst (clients h))" by (simp add: hub_inv_def)
  obtain h1 where h1: "(case map_of (clients h) ?uid of Some old \<Rightarrow> close_send h old | None \<Rightarrow> Inr h) = Inr h1"
    and h1_clients: "clients h1 = clients h" and h1_frame: "frame_eq h h1"
    and h1_uid: "\<forall>p. UserID (heap h1 p) = UserID (heap h p)"
    and h1_open: "\<forall>p. (\<forall>old. map_of (clients h) ?uid = Some old \<longrightarrow> p \<noteq> old)
                      \<longrightarrow> chan_closed (send (heap h1 p)) = chan_closed (send (heap h p))"
    and h1_old: "\<forall>old. map_of (clients h) ?uid = Some old \<longrightarrow> chan_closed (send (heap h1 old))"
  proof (cases "map_of (clients h) ?uid")
    case None
    then show ?thesis using that [of h] by (simp add: frame_eq_def)
  next
    case (Some old)
    then have "(?uid, old) \<in> set (clients h)" by (rule map_of_SomeD)
    from hub_inv_entry [OF inv this] have "\<not> chan_closed (send (heap h old))" by simp
    then show ?thesis
      using Some that [of "set_send h old ((send (heap h old))\<lparr>chan_closed := True\<rparr>)"]
      by (simp add: close_send_open frame_eq_def)
  qed
  let ?h2 = "h1\<lparr>clients := AList.update ?uid c (clients h1)\<rparr>"
  have old_ne: "\<forall>old. map_of (clients h) ?uid = Some old \<longrightarrow> old \<noteq> c"
    using fresh by (force dest: map_of_SomeD)
  have c1: "\<not> chan_closed (send (heap h1 c))"
  proof -
    have "\<forall>old. map_of (clients h) ?uid = Some old \<longrightarrow> c \<noteq> old" using old_ne by blast
    with h1_open have "chan_closed (send (heap h1 c)) = chan_closed (send (heap h c))" by blast
    with op show ?thesis by simp
  qed
  have inv2: "hub_inv ?h2"
    unfolding hub_inv_def
  proof (intro conjI)
    show "distinct (map fst (clients ?h2))"
      using dist h1_clients by (simp add: distinct_update)
    show "list_all (\<lambda>(u, c). UserID (heap ?h2 c) = u \<and> \<not> chan_closed (send (heap ?h2 c)) \<and> c < brk ?h2)
            (clients ?h2)"
      unfolding list_all_iff
    proof (clarify)
      fix k p assume "(k, p) \<in> set (clients ?h2)"
      then have kp: "(k, p) = (?uid, c) \<or> ((k, p) \<in> set (clients h) \<and> k \<noteq> ?uid)"
        using dist h1_clients by (auto simp: set_update_distinct)
      then show "UserID (heap ?h2 p) = k \<and> \<not> chan_closed (send (heap ?h2 p)) \<and> p < brk ?h2"
      proof
        assume "(k, p) = (?uid, c)"
        then show ?thesis using h1_uid c1 lt h1_frame
          by (simp add: frame_eq_def)
      next
        assume a: "(k, p) \<in> set (clients h) \<and> k \<noteq> ?uid"
        from hub_inv_entry [OF inv, of k p] a
        have e: "UserID (heap h p) = k" "\<not> chan_closed (send (heap h p))" "p < brk h" by simp_all
        have "\<forall>old. map_of (clients h) ?uid = Some old \<longrightarrow> p \<noteq> old"
        proof (intro allI impI)
          fix old assume "map_of (clients h) ?uid = Some old"
          then have "(?uid, old) \<in> set (clients h)" by (rule map_of_SomeD)
          from hub_inv_entry [OF inv this] have "UserID (heap h old) = ?uid" by simp
          with e(1) a show "p \<noteq> old" by auto
        qed
        with h1_open have "chan_closed (send (heap h1 p)) = chan_closed (send (heap h p))" by blast
        with e h1_uid h1_frame show ?thesis by (simp add: frame_eq_def)
      qed
    qed
  qed
  from broadcastPresence_same [OF inv2, of ?uid "Username (heap ?h2 c)" "''online''"]
  obtain h' where h': "broadcastPresence ?h2 ?uid (Username (heap ?h2 c)) ''online'' = Inr h'"
    "same_sessions ?h2 h'" "frame_eq ?h2 h'" by blast
  have run: "run_register h c = Inr h'"
    using h1 h'(1) by (simp add: run_register_def and_then_def Let_def)
  have "hub_inv h'" using inv2 h'(2) by (rule same_sessions_inv)
  moreover have "frame_eq h h'" using h1_frame h'(3) by (simp add: frame_eq_def)
  moreover have "map_of (clients h') ?uid = Some c"
    using h'(2) by (simp add: same_sessions_def update_conv')
  moreover have "UserID (heap h' c) = ?uid \<and> \<not> chan_closed (send (heap h' c))"
    using h'(2) h1_uid c1 by (simp add: same_sessions_def)
  moreover have "\<forall>old. map_of (clients h) ?uid = Some old
                  \<longrightarrow> old \<noteq> c \<and> chan_closed (send (heap h' old))"
    using h'(2) h1_old old_ne by (simp add: same_sessions_def)
  ultimately show ?thesis using run by blast
qed

lemma run_unregister_ok:
  assumes inv: "hub_inv h"
  shows "\<exists>h'. run_unregister h c = Inr h' \<and> hub_inv h' \<and> frame_eq h h'"
proof -
  let ?uid = "UserID (heap h c)"
  from inv have dist: "distinct (map fst (clients h))" by (simp add: hub_inv_def)
  obtain h1 where h1: "(if map_of (clients h) ?uid = Some c
                then close_send (h\<lparr>clients := AList.delete ?uid (clients h)\<rparr>) c
                else Inr h) = Inr h1" and inv1: "hub_inv h1" and fr1: "frame_eq h h1"
    and same1: "UserID (heap h1 c) = ?uid" "Username (heap h1 c) = Username (heap h c)"
  proof (cases "map_of (clients h) ?uid = Some c")
    case False
    then show ?thesis using that [of h] inv by (simp add: frame_eq_def)
  next
    case True
    then have "(?uid, c) \<in> set (clients h)" by (rule map_of_SomeD)
    from hub_inv_entry [OF inv this] have op: "\<not> chan_closed (send (heap h c))" by simp
    let ?h0 = "h\<lparr>clients := AList.delete ?uid (clients h)\<rparr>"
    let ?h1 = "set_send ?h0 c ((send (heap ?h0 c))\<lparr>chan_closed := True\<rparr>)"
    have "hub_inv ?h1"
      unfolding hub_inv_def
    proof (intro conjI)
      show "distinct (map fst (clients ?h1))" using dist by (simp add: distinct_delete)
      show "list_all (\<lambda>(u, c). UserID (heap ?h1 c) = u \<and> \<not> chan_closed (send (heap ?h1 c)) \<and> c < brk ?h1)
              (clients ?h1)"
        unfolding list_all_iff
      proof (clarify)
        fix k p assume "(k, p) \<in> set (clients ?h1)"
        then have kp: "(k, p) \<in> set (clients h)" "k \<noteq> ?uid" by (auto simp: AList.delete_eq)
        from hub_inv_entry [OF inv kp(1)]
        have e: "UserID (heap h p) = k" "\<not> chan_closed (send (heap h p))" "p < brk h" by simp_all
        with kp(2) have "p \<noteq> c" by auto
        with e show "UserID (heap ?h1 p) = k \<and> \<not> chan_closed (send (heap ?h1 p)) \<and> p < brk ?h1"
          by simp
      qed
    qed
    moreover have "close_send ?h0 c = Inr ?h1" using op by (simp add: close_send_open)
    ultimately show ?thesis using True that [of ?h1] by (simp add: frame_eq_def)
  qed
  from broadcastPresence_same [OF inv1, of ?uid "Username (heap h1 c)" "''offline''"]
  obtain h' where h': "broadcastPresence h1 ?uid (Username (heap h1 c)) ''offline'' = Inr h'"
    "same_sessions h1 h'" "frame_eq h1 h'" by blast
  have "run_unregister h c = Inr h'"
    using h1 h'(1) by (simp add: run_unregister_def and_then_def Let_def)
  moreover have "hub_inv h'" using inv1 h'(2) by (rule same_sessions_inv)
  moreover have "frame_eq h h'" using fr1 h'(3) by (simp add: frame_eq_def)
  ultimately show ?thesis by blast
qed

lemma visit_simps [simp]:
  "UserID (visit msg u c) = UserID c" "Username (visit msg u c) = Username c"
  "rooms (visit msg u c) = rooms c"
  by (simp_all add: visit_def shut_def enqueue_def)

lemma visit_open:
  "\<not> evicts msg u c \<Longrightarrow> chan_closed (send (visit msg u c)) = chan_closed (send c)"
  by (simp add: visit_def evicts_def enqueue_def)

lemma run_broadcast_exact:
  assumes inv: "hub_inv h"
  shows "\<exists>h'. run_broadcast h msg = Inr h' \<and> hub_inv h' \<and> frame_eq h h'
     \<and> (\<forall>p. p \<notin> snd ` set (clients h) \<longrightarrow> heap h' p = heap h p)
     \<and> (\<forall>(u, p) \<in> set (clients h). heap h' p = visit msg u (heap h p))
     \<and> clients h' = filter (\<lambda>(k, c). \<not> evicts msg k (heap h c)) (clients h)"
proof -
  from broadcast_loop_exact [OF hub_inv_distinct_ptrs [OF inv] hub_inv_all_open [OF inv], of msg]
  obtain h' where h': "broadcast_loop msg (clients h) h = Inr h'" "frame_eq h h'"
    "\<forall>p. p \<notin> snd ` set (clients h) \<longrightarrow> heap h' p = heap h p"
    "\<forall>(u, p) \<in> set (clients h). heap h' p = visit msg u (heap h p)"
    "clients h' =
       filter (\<lambda>(k, c). \<not> (\<exists>p. (k, p) \<in> set (clients h) \<and> evicts msg k (heap h p))) (clients h)"
    by blast
  from inv have dist: "distinct (map fst (clients h))" by (simp add: hub_inv_def)
  have uniq: "\<And>k p q. (k, p) \<in> set (clients h) \<Longrightarrow> (k, q) \<in> set (clients h) \<Longrightarrow> p = q"
    using dist by (meson eq_key_imp_eq_value)
  have cl: "clients h' = filter (\<lambda>(k, c). \<not> evicts msg k (heap h c)) (clients h)"
    unfolding h'(5) by (rule filter_cong) (auto dest: uniq)
  have "hub_inv h'"
    unfolding hub_inv_def
  proof (intro conjI)
    show "distinct (map fst (clients h'))" using dist unfolding cl by (rule distinct_map_filter)
    show "list_all (\<lambda>(u, c). UserID (heap h' c) = u \<and> \<not> chan_closed (send (heap h' c)) \<and> c < brk h')
            (clients h')"
      unfolding list_all_iff
    proof (clarify)
      fix k p assume "(k, p) \<in> set (clients h')"
      then have kp: "(k, p) \<in> set (clients h)" "\<not> evicts msg k (heap h p)" by (auto simp: cl)
      from hub_inv_entry [OF inv kp(1)]
      have e: "UserID (heap h p) = k" "\<not> chan_closed (send (heap h p))" "p < brk h" by simp_all
      from h'(4) kp(1) have "heap h' p = visit msg k (heap h p)" by blast
      with e kp(2) h'(2) show "UserID (heap h' p) = k \<and> \<not> chan_closed (send (heap h' p)) \<and> p < brk h'"
        by (simp add: visit_open frame_eq_def)
    qed
  qed
  with h' cl show ?thesis by (simp add: run_broadcast_def)
qed

lemma Run_step_ok:
  assumes inv: "hub_inv h"
    and reg: "\<And>c. sel = RecvRegister c \<Longrightarrow>
                c \<notin> snd ` set (clients h) \<and> \<not> chan_closed (send (heap h c)) \<and> c < brk h"
  shows "\<exists>h'. Run_step h sel = Inr h' \<and> hub_inv h'"
proof (cases sel)
  case (RecvRegister c)
  with reg run_register_ok [OF inv, of c] show ?thesis by auto
next
  case (RecvUnregister c)
  with run_unregister_ok [OF inv, of c] show ?thesis by auto
next
  case RecvBroadcast
  show ?thesis
  proof (cases "broadcast h")
    case Nil
    with RecvBroadcast inv show ?thesis by simp
  next
    case (Cons msg pending)
    have "hub_inv (h\<lparr>broadcast := pending\<rparr>)" using inv by (simp add: hub_inv_def)
    from run_broadcast_exact [OF this, of msg] Cons RecvBroadcast show ?thesis by auto
  qed
qed




lemma BroadcastToRoom_same [simp]: "same_sessions h (BroadcastToRoom h r d x)"
  by (simp add: BroadcastToRoom_def same_sessions_def)

lemma DB_update_same [simp]: "same_sessions h (h\<lparr>DB := d\<rparr>)"
  by (simp add: same_sessions_def)

lemma spawned_update_same [simp]: "same_sessions h (h\<lparr>spawned := d\<rparr>)"
  by (simp add: same_sessions_def)



lemma HandleRoomJoin_same [simp]: "same_sessions h (HandleRoomJoin h c r)"
  by (auto simp: HandleRoomJoin_def Let_def BroadcastToRoom_def same_sessions_def
        split: prod.splits option.splits)

lemma HandleRoomLeave_same [simp]: "same_sessions h (HandleRoomLeave h c r)"
  by (auto simp: HandleRoomLeave_def Let_def BroadcastToRoom_def same_sessions_def
        split: prod.splits option.splits)

lemma HandleTyping_same [simp]: "same_sessions h (HandleTyping h c r b)"
  by (simp add: HandleTyping_def Let_def)





lemma writePump_recv_same [simp]: "same_sessions h (writePump_recv h c)"
  by (auto simp: writePump_recv_def same_sessions_def split: list.splits)

lemma ServeWS_fresh:
  assumes inv: "hub_inv h" and s: "ServeWS h u n = (c, h1)"
  shows "hub_inv h1 \<and> c = brk h \<and> c \<notin> snd ` set (clients h1) \<and> \<not> chan_closed (send (heap h1 c))
         \<and> c < brk h1 \<and> UserID (heap h1 c) = u \<and> Username (heap h1 c) = n
         \<and> clients h1 = clients h \<and> (\<forall>p. p \<noteq> c \<longrightarrow> heap h1 p = heap h p)"
proof -
  from s have c: "c = brk h" and cl: "clients h1 = clients h" and b: "brk h1 = Suc (brk h)"
    and hp: "\<forall>p. p \<noteq> c \<longrightarrow> heap h1 p = heap h p"
    and new: "UserID (heap h1 c) = u" "Username (heap h1 c) = n" "\<not> chan_closed (send (heap h1 c))"
    by (auto simp: ServeWS_def new_client_def Let_def make_chan_def split: prod.splits)
  have lt: "\<And>k p. (k, p) \<in> set (clients h) \<Longrightarrow> p < brk h"
    using hub_inv_entry [OF inv] by blast
  then have fresh: "c \<notin> snd ` set (clients h1)" using c cl by fastforce
  have "hub_inv h1"
    unfolding hub_inv_def
  proof (intro conjI)
    show "distinct (map fst (clients h1))" using inv cl by (simp add: hub_inv_def)
    show "list_all (\<lambda>(u, c). UserID (heap h1 c) = u \<and> \<not> chan_closed (send (heap h1 c)) \<and> c < brk h1)
            (clients h1)"
      unfolding list_all_iff
    proof (clarify)
      fix k p assume kp: "(k, p) \<in> set (clients h1)"
      with cl have kp': "(k, p) \<in> set (clients h)" by simp
      from lt [OF kp'] c have "p \<noteq> c" by simp
      with hp hub_inv_entry [OF inv kp'] b
      show "UserID (heap h1 p) = k \<and> \<not> chan_closed (send (heap h1 p)) \<and> p < brk h1" by simp
    qed
  qed
  with c cl b hp new fresh show ?thesis by simp
qed




section \<open>One session per user\<close>

lemmas eval_defs = ServeWS_def GetRoomsForUser_def driver_def new_client_def run_register_def
  run_unregister_def run_broadcast_def NewHub_def and_then_def broadcastPresence_def NewWSMessage_def
  marshal_WSMessage_def try_send_def make_chan_def set_send_def close_send_def close_chan_def
  sample_db_def Let_def TypePresenceUpdate_def


lemma hub_steps_return:
  assumes inv: "hub_inv h"
  shows "(\<exists>h'. exec time_Parse time_Format h (Connect u name) = Inr h')
       \<and> (\<exists>h'. exec time_Parse time_Format h (Disconnect c) = Inr h')
       \<and> (\<exists>h'. exec time_Parse time_Format h Fanout = Inr h')"
proof -
  obtain c0 h1 where s: "ServeWS h u name = (c0, h1)" by (metis prod.exhaust)
  from ServeWS_fresh [OF inv s] have f: "hub_inv h1" "c0 \<notin> snd ` set (clients h1)"
    "\<not> chan_closed (send (heap h1 c0))" "c0 < brk h1" by blast+
  from run_register_ok [OF f] s have "\<exists>h'. exec time_Parse time_Format h (Connect u name) = Inr h'"
    by auto
  moreover from run_unregister_ok [OF inv, of c]
  have "\<exists>h'. exec time_Parse time_Format h (Disconnect c) = Inr h'" by auto
  moreover from Run_step_ok [OF inv, of RecvBroadcast]
  have "\<exists>h'. exec time_Parse time_Format h Fanout = Inr h'" by auto
  ultimately show ?thesis by blast
qed


section \<open>Fan-out of a room broadcast\<close>




section \<open>A reachable state with a full queue\<close>







section \<open>Full queues\<close>




section \<open>Presence after a reconnect\<close>

text \<open>
  Claim C1 at a reconnect. Users u1 and u2 connect, u1 connects again, and the read pump
  of u1's first session then unregisters. The unregister handler does not remove anything
  (the map points at the second session, which stays registered with an open queue), yet
  it broadcasts \<^verbatim>\<open>offline\<close>: the last frame in u2's queue reports u1 offline, and u2's
  view ends with u1 not online.
\<close>

theorem late_unregister_reports_offline:
  "\<exists>h. execute (\<lambda>s. None) (\<lambda>t. []) (NewHub sample_db)
          [Connect ''u1'' ''alice'', Connect ''u2'' ''bob'', Connect ''u1'' ''alice'', Disconnect 0]
        = Inr h
     \<and> clients h = [(''u1'', 2), (''u2'', 1)]
     \<and> \<not> chan_closed (send (heap h 2))
     \<and> chan_buf (send (heap h 1)) =
         [ignore_err (NewWSMessage TypePresenceUpdate (PresenceUpdatePayload ''u2'' ''bob'' ''online'')),
          ignore_err (NewWSMessage TypePresenceUpdate (PresenceUpdatePayload ''u1'' ''alice'' ''online'')),
          ignore_err (NewWSMessage TypePresenceUpdate (PresenceUpdatePayload ''u1'' ''alice'' ''offline''))]
     \<and> ''u1'' \<notin> onlineUsers (chan_buf (send (heap h 1)))"
  by (simp add: eval_defs ignore_err_def onlineUsers_def on_frame_def unmarshal_WSMessage_def
        unmarshal_payload_def find_field_def ws_fields_def get_string_def coerce_utf8_ascii
        ascii_def)

section \<open>Read tracking in storage\<close>

lemma driver_tables [simp]:
  "tbl_room_members (snd (driver d)) = tbl_room_members d"
  "tbl_messages (snd (driver d)) = tbl_messages d"
  "tbl_users (snd (driver d)) = tbl_users d"
  "tbl_rooms (snd (driver d)) = tbl_rooms d"
  by (simp_all add: driver_def split: list.splits)

lemma find_map_update:
  "find P (map (\<lambda>x. if P x then f x else x) xs) = map_option f (find P xs)"
  if "\<And>x. P x \<Longrightarrow> P (f x)"
  using that by (induction xs) auto

lemma find_map_other:
  "find Q (map (\<lambda>x. if P x then f x else x) xs) = find Q xs"
  if "\<And>x. Q x \<Longrightarrow> \<not> P x" "\<And>x. P x \<Longrightarrow> \<not> Q (f x)"
  using that by (induction xs) auto

lemma UpdateLastRead_sets:
  assumes "UpdateLastRead d roomID userID t = (None, d')"
  shows "last_read_at d' r u =
           (if r = roomID \<and> u = userID then map_option (\<lambda>_. t) (last_read_at d roomID userID)
            else last_read_at d r u)"
proof -
  from assms have tbl: "tbl_room_members d' =
      map (\<lambda>rm. if is_member_row roomID userID rm then rm\<lparr>rm_last_read_at := t\<rparr> else rm)
        (tbl_room_members d)"
    by (auto simp: UpdateLastRead_def driver_def Let_def split: list.splits if_splits)
  show ?thesis
  proof (cases "r = roomID \<and> u = userID")
    case True
    have "find (is_member_row roomID userID)
        (map (\<lambda>rm. if is_member_row roomID userID rm then rm\<lparr>rm_last_read_at := t\<rparr> else rm)
          (tbl_room_members d))
        = map_option (\<lambda>rm. rm\<lparr>rm_last_read_at := t\<rparr>)
            (find (is_member_row roomID userID) (tbl_room_members d))"
      by (rule find_map_update) (simp add: is_member_row_def)
    with True show ?thesis unfolding last_read_at_def tbl
      by (simp add: option.map_comp comp_def)
  next
    case False
    then have "find (is_member_row r u)
        (map (\<lambda>rm. if is_member_row roomID userID rm then rm\<lparr>rm_last_read_at := t\<rparr> else rm)
          (tbl_room_members d)) = find (is_member_row r u) (tbl_room_members d)"
      by (intro find_map_other) (auto simp: is_member_row_def)
    with False show ?thesis unfolding last_read_at_def tbl by auto
  qed
qed

lemma SendToUser_DB: "SendToUser h u data = Inr h' \<Longrightarrow> DB h' = DB h"
  by (auto simp: SendToUser_def set_send_def split: option.splits selected.splits)

text \<open>
  Claim C2, as the code has it. A mark-read whose timestamp parses to \<open>t\<close> and whose
  storage update succeeds leaves the stored \<open>last_read_at\<close> of that (room, user) row equal
  to \<open>t\<close>, whatever it was before, and leaves every other row's value alone. After two
  successful updates of the same row the stored value is the second timestamp.
\<close>

theorem mark_read_overwrites:
  assumes parse: "time_Parse timestamp = Some t"
    and ok: "fst (UpdateLastRead (DB h) roomID (UserID (heap h c)) t) = None"
    and run: "HandleMessageRead time_Parse h c roomID timestamp = Inr h'"
  shows "last_read_at (DB h') r u =
           (if r = roomID \<and> u = UserID (heap h c)
            then map_option (\<lambda>_. t) (last_read_at (DB h) r u)
            else last_read_at (DB h) r u)
       \<and> (\<forall>d2 t2. UpdateLastRead (DB h') roomID (UserID (heap h c)) t2 = (None, d2)
             \<longrightarrow> last_read_at d2 roomID (UserID (heap h c))
                   = map_option (\<lambda>_. t2) (last_read_at (DB h) roomID (UserID (heap h c))))"
proof -
  obtain d1 where up: "UpdateLastRead (DB h) roomID (UserID (heap h c)) t = (None, d1)"
    using ok by (metis prod.collapse)
  with parse run have "DB h' = d1"
    by (auto simp: HandleMessageRead_def Let_def BroadcastToRoom_def dest!: SendToUser_DB)
  with UpdateLastRead_sets [OF up] have one: "\<And>r u. last_read_at (DB h') r u =
           (if r = roomID \<and> u = UserID (heap h c)
            then map_option (\<lambda>_. t) (last_read_at (DB h) roomID (UserID (heap h c)))
            else last_read_at (DB h) r u)" by simp
  have "last_read_at d2 roomID (UserID (heap h c))
          = map_option (\<lambda>_. t2) (last_read_at (DB h) roomID (UserID (heap h c)))"
    if "UpdateLastRead (DB h') roomID (UserID (heap h c)) t2 = (None, d2)" for d2 t2
    using UpdateLastRead_sets [OF that, of roomID "UserID (heap h c)"] one
    by (simp add: option.map_comp comp_def)
  with one show ?thesis by auto
qed

lemmas read_eval = reader_hub_def read_db_def parse_five_def HandleMessageRead_def UpdateLastRead_def
  driver_def Let_def BroadcastToRoom_def SendToUser_def try_send_def make_chan_def set_send_def
  last_read_at_def is_member_row_def

theorem mark_read_overwrites_witness:
  "\<exists>h'. parse_five ''1970-01-01T00:00:05Z'' = Some 5
     \<and> HandleMessageRead parse_five reader_hub 0 ''r1'' ''1970-01-01T00:00:05Z'' = Inr h'
     \<and> last_read_at (DB h') ''r1'' ''u2'' = Some 5
     \<and> last_read_at (DB h') ''r2'' ''u2'' = Some 0"
proof -
  have p: "parse_five ''1970-01-01T00:00:05Z'' = Some 5" by (simp add: parse_five_def)
  have ok: "fst (UpdateLastRead (DB reader_hub) ''r1'' (UserID (heap reader_hub 0)) 5) = None"
    by (simp add: read_eval)
  have "\<exists>h'. HandleMessageRead parse_five reader_hub 0 ''r1'' ''1970-01-01T00:00:05Z'' = Inr h'"
    by (simp add: read_eval)
  then obtain h' where run:
    "HandleMessageRead parse_five reader_hub 0 ''r1'' ''1970-01-01T00:00:05Z'' = Inr h'" by blast
  have before: "last_read_at (DB reader_hub) ''r1'' ''u2'' = Some 10"
    "last_read_at (DB reader_hub) ''r2'' ''u2'' = Some 0" "UserID (heap reader_hub 0) = ''u2''"
    by (simp_all add: read_eval)
  from mark_read_overwrites [OF p ok run, of "''r1''" "''u2''"]
       mark_read_overwrites [OF p ok run, of "''r2''" "''u2''"] before p run
  show ?thesis by auto
qed

text \<open>
  Against claim C2 as stated: the row of (r1, u2) holds \<open>last_read_at = 10\<close>; a mark-read
  with a timestamp that parses to 5 succeeds and leaves 5 in the row, not \<open>max 10 5\<close>.
\<close>

theorem mark_read_not_max_counterexample:
  "last_read_at (DB reader_hub) ''r1'' ''u2'' = Some 10
   \<and> parse_five ''1970-01-01T00:00:05Z'' = Some 5
   \<and> map_sum id (\<lambda>h'. last_read_at (DB h') ''r1'' ''u2'')
         (HandleMessageRead parse_five reader_hub 0 ''r1'' ''1970-01-01T00:00:05Z'') = Inr (Some 5)
   \<and> (5 :: int) \<noteq> max 10 5"
  by (simp add: read_eval)

section \<open>Unread counts\<close>

lemma concat_map_if:
  "concat (map (\<lambda>x. if P x then [f x] else []) xs) = map f (filter P xs)"
  by (induction xs) auto

lemma unique_member_row:
  "distinct (map member_key rms) \<Longrightarrow> find (is_member_row r u) rms = Some row \<Longrightarrow>
   filter (is_member_row r u) rms = [row]"
proof (induction rms)
  case Nil
  then show ?case by simp
next
  case (Cons x rms)
  show ?case
  proof (cases "is_member_row r u x")
    case True
    with Cons.prems have "x = row" by simp
    moreover have "filter (is_member_row r u) rms = []"
    proof (rule ccontr)
      assume "filter (is_member_row r u) rms \<noteq> []"
      then obtain y where "y \<in> set rms" "is_member_row r u y"
        by (auto simp: filter_empty_conv)
      with True have "member_key y = member_key x"
        by (simp add: is_member_row_def member_key_def)
      moreover from \<open>y \<in> set rms\<close> have "member_key y \<in> set (map member_key rms)" by simp
      ultimately show False using Cons.prems(1) by simp
    qed
    ultimately show ?thesis using True by simp
  next
    case False
    with Cons show ?thesis by simp
  qed
qed

lemma unread_pairs_length:
  assumes pk: "distinct (map member_key (tbl_room_members d))"
    and row: "find (is_member_row roomID userID) (tbl_room_members d) = Some row"
  shows "length (unread_pairs d roomID userID)
           = length (filter (is_unread roomID userID (rm_last_read_at row)) (tbl_messages d))"
proof -
  let ?rms = "tbl_room_members d"
  let ?Q = "\<lambda>(m, rm). m_room_id m = roomID \<and> m_created_at m > rm_last_read_at rm
                        \<and> m_sender_id m \<noteq> userID"
  have inner: "concat (map (\<lambda>rm. if rm_room_id rm = m_room_id m \<and> rm_user_id rm = userID
                                  then [(m, rm)] else []) ?rms)
               = map (Pair m) (filter (is_member_row (m_room_id m) userID) ?rms)" for m
    using concat_map_if [of "is_member_row (m_room_id m) userID" "Pair m" ?rms]
    by (simp add: is_member_row_def)
  have one: "length (filter ?Q (map (Pair m) (filter (is_member_row (m_room_id m) userID) ?rms)))
             = (if is_unread roomID userID (rm_last_read_at row) m then 1 else 0)" for m
  proof (cases "m_room_id m = roomID")
    case True
    with unique_member_row [OF pk row] show ?thesis
      by (simp add: is_unread_def)
  next
    case False
    then have "filter ?Q (map (Pair m) (filter (is_member_row (m_room_id m) userID) ?rms)) = []"
      by (auto simp: filter_empty_conv)
    with False show ?thesis by (simp add: is_unread_def)
  qed
  let ?g = "\<lambda>m. map (Pair m) (filter (is_member_row (m_room_id m) userID) ?rms)"
  have "length (filter ?Q (concat (map ?g ms)))
        = length (filter (is_unread roomID userID (rm_last_read_at row)) ms)" for ms
  proof (induction ms)
    case Nil
    show ?case by simp
  next
    case (Cons m ms)
    have "length (filter ?Q (concat (map ?g (m # ms))))
          = length (filter ?Q (?g m)) + length (filter ?Q (concat (map ?g ms)))"
      by (simp only: list.map concat.simps filter_append length_append)
    also have "\<dots> = (if is_unread roomID userID (rm_last_read_at row) m then 1 else 0)
                 + length (filter (is_unread roomID userID (rm_last_read_at row)) ms)"
      by (simp only: one Cons.IH)
    also have "\<dots> = length (filter (is_unread roomID userID (rm_last_read_at row)) (m # ms))"
      by simp
    finally show ?case .
  qed
  then show ?thesis unfolding unread_pairs_def inner by simp
qed

text \<open>
  Claim C7. With the primary keys of the schema in force, for a user who holds a
  membership row in the room, a successful \<^verbatim>\<open>GetUnreadCount\<close> returns the number of
  messages of the room created strictly after the row's \<open>last_read_at\<close> and sent by
  somebody else. Whatever the store and the arguments, the returned count is not negative.
\<close>

theorem unread_count_formula:
  assumes pk: "primary_keys d"
    and member: "last_read_at d roomID userID = Some last_read"
    and call: "GetUnreadCount d roomID userID = ((n, None), d')"
  shows "n = int (card {m \<in> set (tbl_messages d).
                     m_room_id m = roomID \<and> m_created_at m > last_read
                     \<and> m_sender_id m \<noteq> userID})
       \<and> 0 \<le> fst (fst (GetUnreadCount d0 r0 u0))"
proof -
  from member obtain row where row: "find (is_member_row roomID userID) (tbl_room_members d) = Some row"
    and lr: "rm_last_read_at row = last_read"
    by (auto simp: last_read_at_def)
  from pk have pkm: "distinct (map member_key (tbl_room_members d))"
    and ids: "distinct (map m_id (tbl_messages d))" by (simp_all add: primary_keys_def)
  from ids have dm: "distinct (tbl_messages d)" by (simp add: distinct_map)
  obtain bad d1 where dr: "driver d = (bad, d1)" by (metis prod.exhaust)
  with call have nb: "\<not> bad" and n: "n = int (length (unread_pairs d1 roomID userID))"
    by (auto simp: GetUnreadCount_def split: if_splits)
  from dr have same: "tbl_room_members d1 = tbl_room_members d" "tbl_messages d1 = tbl_messages d"
    using driver_tables [of d] by simp_all
  then have "unread_pairs d1 roomID userID = unread_pairs d roomID userID"
    by (simp add: unread_pairs_def)
  with n unread_pairs_length [OF pkm row] lr
  have "n = int (length (filter (is_unread roomID userID last_read) (tbl_messages d)))" by simp
  also have "length (filter (is_unread roomID userID last_read) (tbl_messages d))
             = card (set (filter (is_unread roomID userID last_read) (tbl_messages d)))"
    using distinct_card [of "filter (is_unread roomID userID last_read) (tbl_messages d)"] dm
    by (simp del: set_filter)
  also have "set (filter (is_unread roomID userID last_read) (tbl_messages d))
             = {m \<in> set (tbl_messages d). m_room_id m = roomID \<and> m_created_at m > last_read
                     \<and> m_sender_id m \<noteq> userID}"
    by (auto simp: is_unread_def)
  finally have a: "n = int (card {m \<in> set (tbl_messages d).
                     m_room_id m = roomID \<and> m_created_at m > last_read
                     \<and> m_sender_id m \<noteq> userID})" .
  have "0 \<le> fst (fst (GetUnreadCount d0 r0 u0))"
    by (simp add: GetUnreadCount_def Let_def split: prod.splits)
  with a show ?thesis by simp
qed

theorem unread_count_formula_witness:
  "primary_keys read_db \<and> last_read_at read_db ''r1'' ''u2'' = Some 10
   \<and> GetUnreadCount read_db ''r1'' ''u2'' = ((1, None), read_db)
   \<and> (1 :: int) = int (card {m \<in> set (tbl_messages read_db).
                     m_room_id m = ''r1'' \<and> m_created_at m > 10 \<and> m_sender_id m \<noteq> ''u2''})"
proof -
  have a: "primary_keys read_db" by (simp add: primary_keys_def read_db_def member_key_def)
  have b: "last_read_at read_db ''r1'' ''u2'' = Some 10" by (simp add: read_eval)
  have c: "GetUnreadCount read_db ''r1'' ''u2'' = ((1, None), read_db)"
    by (simp add: GetUnreadCount_def unread_pairs_def driver_def read_db_def)
  from unread_count_formula [OF a b c] a b c show ?thesis by simp
qed

text \<open>The storage functions keep the primary keys.\<close>

lemma AddRoomMember_keys: "primary_keys d \<Longrightarrow> primary_keys (snd (AddRoomMember d r u))"
  by (auto simp: AddRoomMember_def driver_def primary_keys_def Let_def member_key_def
        list_ex_iff is_member_row_def split: list.splits)

lemma RemoveRoomMember_keys: "primary_keys d \<Longrightarrow> primary_keys (snd (RemoveRoomMember d r u))"
  by (auto simp: RemoveRoomMember_def driver_def primary_keys_def Let_def distinct_map_filter
        split: list.splits)

lemma UpdateLastRead_keys: "primary_keys d \<Longrightarrow> primary_keys (snd (UpdateLastRead d r u t))"
proof -
  have "member_key \<circ> (\<lambda>rm. if is_member_row r u rm then rm\<lparr>rm_last_read_at := t\<rparr> else rm)
        = member_key"
    by (auto simp: fun_eq_iff member_key_def)
  then show "primary_keys d \<Longrightarrow> primary_keys (snd (UpdateLastRead d r u t))"
    by (auto simp: UpdateLastRead_def driver_def primary_keys_def Let_def split: list.splits)
qed

lemma CreateMessage_keys: "primary_keys d \<Longrightarrow> primary_keys (snd (CreateMessage d r u c))"
  by (auto simp: CreateMessage_def driver_def primary_keys_def Let_def split: list.splits)

section \<open>What a domain operation emits\<close>

lemma driver_snd_tables:
  "driver d = (bad, d1) \<Longrightarrow> tbl_room_members d1 = tbl_room_members d"
  using driver_tables(1) [of d] by simp

lemma sendError_replied:
  assumes "\<not> chan_closed (send (heap h c))" "\<not> chan_full (send (heap h c))"
  shows "\<exists>h'. sendError h c message code = Inr h' \<and> replied h h' c [error_frame message code]
            \<and> DB h' = DB h"
  using assms
  by (simp add: sendError_def try_send_cases replied_def error_frame_def set_send_def Let_def)

lemma UpdateLastRead_rows:
  "UpdateLastRead d roomID userID t = (None, d1) \<Longrightarrow>
     tbl_room_members d1 = marked_rows roomID userID t (tbl_room_members d)"
  "UpdateLastRead d roomID userID t = (Some e, d1) \<Longrightarrow> tbl_room_members d1 = tbl_room_members d"
  by (auto simp: UpdateLastRead_def marked_rows_def Let_def split: prod.splits if_splits
        dest: driver_snd_tables)

text \<open>
  Claim C10, as the code has it. A \<^verbatim>\<open>message.read\<close> whose timestamp does not parse, or
  whose storage update returns an error, returns without emitting anything: no client's
  queue changes, nothing is published to the room, and the membership rows are as before.
  In every other case, that is when the timestamp parses and the update returns no
  error, the read receipt is published to the room with the sender excluded and
  \<^verbatim>\<open>unread.update\<close> with count 0 is offered to the session registered under the sender's
  user id (appended when its queue has room, dropped when it is full, a panic when it is
  closed), whether or not the update matched a membership row: the rows afterwards are
  those before with \<open>last_read_at\<close> set in the rows of (room, user), of which there may be
  none.
\<close>

theorem mark_read_emits_unless_failed:
  "(time_Parse timestamp = None \<or>
       (\<exists>t e. time_Parse timestamp = Some t
          \<and> fst (UpdateLastRead (DB h) roomID (UserID (heap h c)) t) = Some e)
     \<longrightarrow> (\<exists>h'. HandleMessageRead time_Parse h c roomID timestamp = Inr h' \<and> silent h h'
            \<and> tbl_room_members (DB h') = tbl_room_members (DB h)))
   \<and> (\<forall>t. time_Parse timestamp = Some t
          \<and> fst (UpdateLastRead (DB h) roomID (UserID (heap h c)) t) = None
        \<longrightarrow> (case map_of (clients h) (UserID (heap h c)) of
               None \<Rightarrow>
                 \<exists>h'. HandleMessageRead time_Parse h c roomID timestamp = Inr h'
                   \<and> receipt_published h h' c roomID timestamp \<and> heap h' = heap h
             | Some p \<Rightarrow>
                 if chan_closed (send (heap h p))
                 then HandleMessageRead time_Parse h c roomID timestamp = Inl SendOnClosedChannel
                 else \<exists>h'. HandleMessageRead time_Parse h c roomID timestamp = Inr h'
                   \<and> receipt_published h h' c roomID timestamp
                   \<and> heap h' =
                       (if chan_full (send (heap h p)) then heap h
                        else (heap h)(p := (heap h p)\<lparr>send := (send (heap h p))\<lparr>chan_buf :=
                               chan_buf (send (heap h p)) @ [unread_frame roomID 0]\<rparr>\<rparr>)))
          \<and> (\<forall>h'. HandleMessageRead time_Parse h c roomID timestamp = Inr h'
                \<longrightarrow> \<not> silent h h'
                  \<and> tbl_room_members (DB h')
                      = marked_rows roomID (UserID (heap h c)) t (tbl_room_members (DB h))))"
proof -
  let ?uid = "UserID (heap h c)"
  have a: "\<exists>h'. HandleMessageRead time_Parse h c roomID timestamp = Inr h' \<and> silent h h'
            \<and> tbl_room_members (DB h') = tbl_room_members (DB h)"
    if fail: "time_Parse timestamp = None \<or>
       (\<exists>t e. time_Parse timestamp = Some t \<and> fst (UpdateLastRead (DB h) roomID ?uid t) = Some e)"
  proof (cases "time_Parse timestamp")
    case None
    then show ?thesis by (simp add: HandleMessageRead_def silent_def)
  next
    case (Some t)
    with fail obtain e where e: "fst (UpdateLastRead (DB h) roomID ?uid t) = Some e"
      by auto
    obtain d1 where up: "UpdateLastRead (DB h) roomID ?uid t = (Some e, d1)"
      using e by (metis prod.collapse)
    from UpdateLastRead_rows(2) [OF up] Some up show ?thesis
      by (simp add: HandleMessageRead_def silent_def)
  qed
  have b: "(case map_of (clients h) ?uid of
               None \<Rightarrow>
                 \<exists>h'. HandleMessageRead time_Parse h c roomID timestamp = Inr h'
                   \<and> receipt_published h h' c roomID timestamp \<and> heap h' = heap h
             | Some p \<Rightarrow>
                 if chan_closed (send (heap h p))
                 then HandleMessageRead time_Parse h c roomID timestamp = Inl SendOnClosedChannel
                 else \<exists>h'. HandleMessageRead time_Parse h c roomID timestamp = Inr h'
                   \<and> receipt_published h h' c roomID timestamp
                   \<and> heap h' =
                       (if chan_full (send (heap h p)) then heap h
                        else (heap h)(p := (heap h p)\<lparr>send := (send (heap h p))\<lparr>chan_buf :=
                               chan_buf (send (heap h p)) @ [unread_frame roomID 0]\<rparr>\<rparr>)))
          \<and> (\<forall>h'. HandleMessageRead time_Parse h c roomID timestamp = Inr h'
                \<longrightarrow> \<not> silent h h'
                  \<and> tbl_room_members (DB h') = marked_rows roomID ?uid t (tbl_room_members (DB h)))"
    if p: "time_Parse timestamp = Some t" and ok: "fst (UpdateLastRead (DB h) roomID ?uid t) = None"
    for t
  proof -
    obtain d1 where up: "UpdateLastRead (DB h) roomID ?uid t = (None, d1)"
      using ok by (metis prod.collapse)
    note rows = UpdateLastRead_rows(1) [OF up]
    let ?h2 = "BroadcastToRoom (h\<lparr>DB := d1\<rparr>) roomID
                 (read_receipt_frame roomID ?uid (Username (heap h c)) timestamp) ?uid"
    have run: "HandleMessageRead time_Parse h c roomID timestamp
                 = SendToUser ?h2 ?uid (unread_frame roomID 0)"
      using p up
      by (simp add: HandleMessageRead_def Let_def BroadcastToRoom_def read_receipt_frame_def
            unread_frame_def)
    have h2: "clients ?h2 = clients h" "heap ?h2 = heap h" "spawned ?h2 = spawned h"
      "DB ?h2 = d1" "receipt_published h ?h2 c roomID timestamp"
      by (simp_all add: BroadcastToRoom_def receipt_published_def)
    have first: "(case map_of (clients h) ?uid of
               None \<Rightarrow>
                 \<exists>h'. HandleMessageRead time_Parse h c roomID timestamp = Inr h'
                   \<and> receipt_published h h' c roomID timestamp \<and> heap h' = heap h
             | Some p \<Rightarrow>
                 if chan_closed (send (heap h p))
                 then HandleMessageRead time_Parse h c roomID timestamp = Inl SendOnClosedChannel
                 else \<exists>h'. HandleMessageRead time_Parse h c roomID timestamp = Inr h'
                   \<and> receipt_published h h' c roomID timestamp
                   \<and> heap h' =
                       (if chan_full (send (heap h p)) then heap h
                        else (heap h)(p := (heap h p)\<lparr>send := (send (heap h p))\<lparr>chan_buf :=
                               chan_buf (send (heap h p)) @ [unread_frame roomID 0]\<rparr>\<rparr>)))"
      unfolding run using h2(5)
      by (simp add: SendToUser_def try_send_def chan_full_def set_send_def h2(1,2)
            receipt_published_def BroadcastToRoom_def split: option.splits)
    have second: "\<not> silent h h' \<and> tbl_room_members (DB h')
                      = marked_rows roomID ?uid t (tbl_room_members (DB h))"
      if r: "HandleMessageRead time_Parse h c roomID timestamp = Inr h'" for h'
    proof -
      from r run have s: "SendToUser ?h2 ?uid (unread_frame roomID 0) = Inr h'" by simp
      from SendToUser_DB [OF s] h2(4) rows have db: "tbl_room_members (DB h')
          = marked_rows roomID ?uid t (tbl_room_members (DB h))" by simp
      from s have "broadcast h' = broadcast ?h2"
        by (auto simp: SendToUser_def set_send_def split: option.splits selected.splits)
      then have "broadcast h' \<noteq> broadcast h" by (simp add: BroadcastToRoom_def)
      with db show ?thesis by (simp add: silent_def)
    qed
    from first second show ?thesis by blast
  qed
  from a b show ?thesis by blast
qed

theorem mark_read_emits_unless_failed_witness:
  "parse_five ''yesterday'' = None
   \<and> (\<exists>h'. HandleMessageRead parse_five reader_hub 0 ''r1'' ''yesterday'' = Inr h'
         \<and> silent reader_hub h')
   \<and> parse_five ''1970-01-01T00:00:05Z'' = Some 5
   \<and> fst (UpdateLastRead (DB faulty_hub) ''r1'' (UserID (heap faulty_hub 0)) 5) = Some DriverError
   \<and> (\<exists>h'. HandleMessageRead parse_five faulty_hub 0 ''r1'' ''1970-01-01T00:00:05Z'' = Inr h'
         \<and> silent faulty_hub h')
   \<and> fst (UpdateLastRead (DB reader_hub) ''r1'' (UserID (heap reader_hub 0)) 5) = None
   \<and> (\<exists>h'. HandleMessageRead parse_five reader_hub 0 ''r1'' ''1970-01-01T00:00:05Z'' = Inr h'
         \<and> receipt_published reader_hub h' 0 ''r1'' ''1970-01-01T00:00:05Z''
         \<and> chan_buf (send (heap h' 0)) = [unread_frame ''r1'' 0]
         \<and> \<not> silent reader_hub h'
         \<and> map rm_last_read_at (tbl_room_members (DB h')) = [0, 5, 0])"
proof -
  have a: "parse_five ''yesterday'' = None" by (simp add: parse_five_def)
  have b: "parse_five ''1970-01-01T00:00:05Z'' = Some 5" by (simp add: parse_five_def)
  have c: "fst (UpdateLastRead (DB faulty_hub) ''r1'' (UserID (heap faulty_hub 0)) 5) = Some DriverError"
    by (simp add: faulty_hub_def read_eval)
  have d: "fst (UpdateLastRead (DB reader_hub) ''r1'' (UserID (heap reader_hub 0)) 5) = None"
    by (simp add: read_eval)
  have look: "map_of (clients reader_hub) (UserID (heap reader_hub 0)) = Some 0"
    "\<not> chan_closed (send (heap reader_hub 0))" "\<not> chan_full (send (heap reader_hub 0))"
    "chan_buf (send (heap reader_hub 0)) = []"
    by (simp_all add: reader_hub_def make_chan_def chan_full_def)
  have rows: "map rm_last_read_at
      (marked_rows ''r1'' (UserID (heap reader_hub 0)) 5 (tbl_room_members (DB reader_hub)))
      = [0, 5, 0]"
    by (simp add: marked_rows_def reader_hub_def read_db_def is_member_row_def)
  from mark_read_emits_unless_failed [where time_Parse = parse_five and timestamp = "''yesterday''"
         and h = reader_hub and roomID = "''r1''" and c = 0, THEN conjunct1] a
  have e: "\<exists>h'. HandleMessageRead parse_five reader_hub 0 ''r1'' ''yesterday'' = Inr h'
         \<and> silent reader_hub h'"
    by blast
  from mark_read_emits_unless_failed [where time_Parse = parse_five
         and timestamp = "''1970-01-01T00:00:05Z''"
         and h = faulty_hub and roomID = "''r1''" and c = 0, THEN conjunct1] b c
  have f: "\<exists>h'. HandleMessageRead parse_five faulty_hub 0 ''r1'' ''1970-01-01T00:00:05Z'' = Inr h'
         \<and> silent faulty_hub h'"
    by blast
  from mark_read_emits_unless_failed [where time_Parse = parse_five
         and timestamp = "''1970-01-01T00:00:05Z''"
         and h = reader_hub and roomID = "''r1''" and c = 0, THEN conjunct2, rule_format, of 5] b d
  have g: "(case map_of (clients reader_hub) (UserID (heap reader_hub 0)) of
               None \<Rightarrow>
                 \<exists>h'. HandleMessageRead parse_five reader_hub 0 ''r1'' ''1970-01-01T00:00:05Z'' = Inr h'
                   \<and> receipt_published reader_hub h' 0 ''r1'' ''1970-01-01T00:00:05Z''
                   \<and> heap h' = heap reader_hub
             | Some p \<Rightarrow>
                 if chan_closed (send (heap reader_hub p))
                 then HandleMessageRead parse_five reader_hub 0 ''r1'' ''1970-01-01T00:00:05Z''
                        = Inl SendOnClosedChannel
                 else \<exists>h'. HandleMessageRead parse_five reader_hub 0 ''r1'' ''1970-01-01T00:00:05Z'' = Inr h'
                   \<and> receipt_published reader_hub h' 0 ''r1'' ''1970-01-01T00:00:05Z''
                   \<and> heap h' =
                       (if chan_full (send (heap reader_hub p)) then heap reader_hub
                        else (heap reader_hub)(p := (heap reader_hub p)\<lparr>send :=
                               (send (heap reader_hub p))\<lparr>chan_buf :=
                               chan_buf (send (heap reader_hub p)) @ [unread_frame ''r1'' 0]\<rparr>\<rparr>)))"
    and g2: "\<forall>h'. HandleMessageRead parse_five reader_hub 0 ''r1'' ''1970-01-01T00:00:05Z'' = Inr h'
                \<longrightarrow> \<not> silent reader_hub h'
                  \<and> tbl_room_members (DB h')
                      = marked_rows ''r1'' (UserID (heap reader_hub 0)) 5
                          (tbl_room_members (DB reader_hub))"
    by blast+
  from g look obtain h' where h':
    "HandleMessageRead parse_five reader_hub 0 ''r1'' ''1970-01-01T00:00:05Z'' = Inr h'"
    "receipt_published reader_hub h' 0 ''r1'' ''1970-01-01T00:00:05Z''"
    "heap h' = (heap reader_hub)(0 := (heap reader_hub 0)\<lparr>send :=
                               (send (heap reader_hub 0))\<lparr>chan_buf :=
                               chan_buf (send (heap reader_hub 0)) @ [unread_frame ''r1'' 0]\<rparr>\<rparr>)"
    by auto
  from h'(3) look(4) have q: "chan_buf (send (heap h' 0)) = [unread_frame ''r1'' 0]" by simp
  from g2 h'(1) rows have r: "\<not> silent reader_hub h'"
    "map rm_last_read_at (tbl_room_members (DB h')) = [0, 5, 0]"
    by simp_all
  have last: "\<exists>h'. HandleMessageRead parse_five reader_hub 0 ''r1'' ''1970-01-01T00:00:05Z'' = Inr h'
         \<and> receipt_published reader_hub h' 0 ''r1'' ''1970-01-01T00:00:05Z''
         \<and> chan_buf (send (heap h' 0)) = [unread_frame ''r1'' 0]
         \<and> \<not> silent reader_hub h'
         \<and> map rm_last_read_at (tbl_room_members (DB h')) = [0, 5, 0]"
    by (intro exI [of _ h'] conjI h'(1,2) q r)
  show ?thesis by (intro conjI a b c d e f last)
qed

text \<open>
  Against claim C10 as stated: u1 holds no membership row for r2 and marks r2 read with a
  timestamp that parses. The update matches no row and returns no error, so the
  membership rows are as before; yet the read receipt is published, \<^verbatim>\<open>unread.update\<close>
  lands on u1's own queue, and when the Hub takes the receipt the session of u2,
  subscribed to r2, finds it on its queue.
\<close>

theorem mark_read_without_row_counterexample:
  "last_read_at (DB two_hub) ''r2'' (UserID (heap two_hub 0)) = None
   \<and> parse_five ''1970-01-01T00:00:05Z'' = Some 5
   \<and> fst (UpdateLastRead (DB two_hub) ''r2'' (UserID (heap two_hub 0)) 5) = None
   \<and> map_sum id (\<lambda>h'. (tbl_room_members (DB h') = tbl_room_members (DB two_hub),
                        broadcast h', chan_buf (send (heap h' 0))))
         (HandleMessageRead parse_five two_hub 0 ''r2'' ''1970-01-01T00:00:05Z'')
       = Inr (True,
              [\<lparr>RoomID = ''r2'',
                Data = read_receipt_frame ''r2'' ''u1'' ''alice'' ''1970-01-01T00:00:05Z'',
                ExcludeUserID = ''u1''\<rparr>],
              [unread_frame ''r2'' 0])
   \<and> map_sum id (\<lambda>h'. chan_buf (send (heap h' 1)))
         (and_then (HandleMessageRead parse_five two_hub 0 ''r2'' ''1970-01-01T00:00:05Z'')
            (\<lambda>h1. Run_step h1 RecvBroadcast))
       = Inr [read_receipt_frame ''r2'' ''u1'' ''alice'' ''1970-01-01T00:00:05Z'']"
  by (simp add: two_hub_def read_db_def parse_five_def HandleMessageRead_def UpdateLastRead_def
        driver_def Let_def BroadcastToRoom_def SendToUser_def try_send_def make_chan_def
        set_send_def last_read_at_def is_member_row_def read_receipt_frame_def unread_frame_def
        and_then_def run_broadcast_def)

section \<open>Storage errors inside a domain operation\<close>

lemma IsRoomMember_DB:
  "IsRoomMember d r u = ((m, err), d1) \<Longrightarrow> tbl_room_members d1 = tbl_room_members d"
  by (auto simp: IsRoomMember_def Let_def split: prod.splits if_splits dest: driver_snd_tables)

text \<open>
  Claim C4, as the code has it. Let the sender's queue be open and not full. In
  send-message, a failed append of the message puts one error frame with code
  \<^verbatim>\<open>INTERNAL_ERROR\<close> on the sender's queue, and a failed membership query puts one with
  code \<^verbatim>\<open>NOT_MEMBER\<close> there; nothing else is emitted. A storage error in join-room,
  leave-room or mark-read emits nothing at all, to the sender or to anyone else. In the
  unread fan-out that send-message starts, a failed member query emits nothing, and a
  failed count for one member skips that member and goes on with the others.
\<close>

theorem storage_error_frames:
  assumes op: "\<not> chan_closed (send (heap h c))" and room: "\<not> chan_full (send (heap h c))"
  shows "(content \<noteq> [] \<and> roomID \<noteq> []
            \<and> fst (IsRoomMember (DB h) roomID (UserID (heap h c))) = (True, None)
            \<and> isl (fst (CreateMessage (snd (IsRoomMember (DB h) roomID (UserID (heap h c))))
                          roomID (UserID (heap h c)) content))
          \<longrightarrow> (\<exists>h'. HandleSendMessage time_Format h c roomID content = Inr h'
                 \<and> replied h h' c [error_frame ''failed to send message'' ''INTERNAL_ERROR'']))
       \<and> (content \<noteq> [] \<and> roomID \<noteq> []
            \<and> snd (fst (IsRoomMember (DB h) roomID (UserID (heap h c)))) \<noteq> None
          \<longrightarrow> (\<exists>h'. HandleSendMessage time_Format h c roomID content = Inr h'
                 \<and> replied h h' c [error_frame ''not a member of this room'' ''NOT_MEMBER'']))
       \<and> (fst (AddRoomMember (DB h) roomID (UserID (heap h c))) \<noteq> None
          \<longrightarrow> silent h (HandleRoomJoin h c roomID))
       \<and> (fst (RemoveRoomMember (DB h) roomID (UserID (heap h c))) \<noteq> None
          \<longrightarrow> silent h (HandleRoomLeave h c roomID))
       \<and> (time_Parse timestamp = Some t
            \<and> fst (UpdateLastRead (DB h) roomID (UserID (heap h c)) t) \<noteq> None
          \<longrightarrow> (\<exists>h'. HandleMessageRead time_Parse h c roomID timestamp = Inr h' \<and> silent h h'))
       \<and> (isl (fst (GetRoomMembers (DB h) roomID))
          \<longrightarrow> (\<exists>h'. sendUnreadUpdates h roomID senderID = Inr h' \<and> silent h h'))
       \<and> (user_id member \<noteq> senderID
            \<and> snd (fst (GetUnreadCount (DB h) roomID (user_id member))) \<noteq> None
          \<longrightarrow> unread_loop h roomID senderID (member # others) =
                unread_loop (h\<lparr>DB := snd (GetUnreadCount (DB h) roomID (user_id member))\<rparr>)
                  roomID senderID others)"
proof -
  let ?uid = "UserID (heap h c)"
  obtain isMember err d1 where im: "IsRoomMember (DB h) roomID ?uid = ((isMember, err), d1)"
    by (metis prod.exhaust)
  obtain res d2 where cm: "CreateMessage d1 roomID ?uid content = (res, d2)"
    by (metis prod.exhaust)
  have a: "\<exists>h'. HandleSendMessage time_Format h c roomID content = Inr h'
             \<and> replied h h' c [error_frame ''failed to send message'' ''INTERNAL_ERROR'']"
    if "content \<noteq> [] \<and> roomID \<noteq> []" "isMember" "err = None" "isl res"
  proof -
    from that(4) obtain e where e: "res = Inl e" by (cases res) auto
    from sendError_replied [of "h\<lparr>DB := d2\<rparr>" c "''failed to send message''" "''INTERNAL_ERROR''"]
      op room
    obtain h' where "sendError (h\<lparr>DB := d2\<rparr>) c ''failed to send message'' ''INTERNAL_ERROR'' = Inr h'"
      "replied (h\<lparr>DB := d2\<rparr>) h' c [error_frame ''failed to send message'' ''INTERNAL_ERROR'']"
      by auto
    with that im cm e show ?thesis
      by (simp add: HandleSendMessage_def replied_def)
  qed
  have b: "\<exists>h'. HandleSendMessage time_Format h c roomID content = Inr h'
             \<and> replied h h' c [error_frame ''not a member of this room'' ''NOT_MEMBER'']"
    if "content \<noteq> [] \<and> roomID \<noteq> []" "err \<noteq> None"
  proof -
    from sendError_replied [of "h\<lparr>DB := d1\<rparr>" c "''not a member of this room''" "''NOT_MEMBER''"]
      op room
    obtain h' where "sendError (h\<lparr>DB := d1\<rparr>) c ''not a member of this room'' ''NOT_MEMBER'' = Inr h'"
      "replied (h\<lparr>DB := d1\<rparr>) h' c [error_frame ''not a member of this room'' ''NOT_MEMBER'']"
      by auto
    with that im show ?thesis
      by (simp add: HandleSendMessage_def replied_def)
  qed
  have j: "fst (AddRoomMember (DB h) roomID ?uid) \<noteq> None \<longrightarrow> silent h (HandleRoomJoin h c roomID)"
    by (auto simp: HandleRoomJoin_def silent_def split: prod.splits option.splits)
  have l: "fst (RemoveRoomMember (DB h) roomID ?uid) \<noteq> None \<longrightarrow> silent h (HandleRoomLeave h c roomID)"
    by (auto simp: HandleRoomLeave_def silent_def split: prod.splits option.splits)
  have r: "time_Parse timestamp = Some t
            \<and> fst (UpdateLastRead (DB h) roomID ?uid t) \<noteq> None
          \<longrightarrow> (\<exists>h'. HandleMessageRead time_Parse h c roomID timestamp = Inr h' \<and> silent h h')"
    by (auto simp: HandleMessageRead_def silent_def split: prod.splits option.splits)
  have u: "isl (fst (GetRoomMembers (DB h) roomID))
          \<longrightarrow> (\<exists>h'. sendUnreadUpdates h roomID senderID = Inr h' \<and> silent h h')"
    by (auto simp: sendUnreadUpdates_def silent_def split: prod.splits sum.splits)
  have n: "user_id member \<noteq> senderID
            \<and> snd (fst (GetUnreadCount (DB h) roomID (user_id member))) \<noteq> None
          \<longrightarrow> unread_loop h roomID senderID (member # others) =
                unread_loop (h\<lparr>DB := snd (GetUnreadCount (DB h) roomID (user_id member))\<rparr>)
                  roomID senderID others"
    by (auto simp: Let_def split: prod.splits)
  from a b im cm have ab: "(content \<noteq> [] \<and> roomID \<noteq> []
            \<and> fst (IsRoomMember (DB h) roomID (UserID (heap h c))) = (True, None)
            \<and> isl (fst (CreateMessage (snd (IsRoomMember (DB h) roomID (UserID (heap h c))))
                          roomID (UserID (heap h c)) content))
          \<longrightarrow> (\<exists>h'. HandleSendMessage time_Format h c roomID content = Inr h'
                 \<and> replied h h' c [error_frame ''failed to send message'' ''INTERNAL_ERROR'']))
       \<and> (content \<noteq> [] \<and> roomID \<noteq> []
            \<and> snd (fst (IsRoomMember (DB h) roomID (UserID (heap h c)))) \<noteq> None
          \<longrightarrow> (\<exists>h'. HandleSendMessage time_Format h c roomID content = Inr h'
                 \<and> replied h h' c [error_frame ''not a member of this room'' ''NOT_MEMBER'']))"
    by simp
  from ab j l r u n show ?thesis by (intro conjI) (elim conjE, assumption)+
qed

theorem storage_error_frames_witness:
  "\<not> chan_closed (send (heap append_fault_hub 0)) \<and> \<not> chan_full (send (heap append_fault_hub 0))
   \<and> fst (IsRoomMember (DB append_fault_hub) ''r1'' (UserID (heap append_fault_hub 0))) = (True, None)
   \<and> isl (fst (CreateMessage
                 (snd (IsRoomMember (DB append_fault_hub) ''r1'' (UserID (heap append_fault_hub 0))))
                 ''r1'' (UserID (heap append_fault_hub 0)) ''hello''))
   \<and> (\<exists>h'. HandleSendMessage (\<lambda>t. []) append_fault_hub 0 ''r1'' ''hello'' = Inr h'
         \<and> replied append_fault_hub h' 0 [error_frame ''failed to send message'' ''INTERNAL_ERROR''])
   \<and> \<not> chan_closed (send (heap faulty_hub 0)) \<and> \<not> chan_full (send (heap faulty_hub 0))
   \<and> snd (fst (IsRoomMember (DB faulty_hub) ''r1'' (UserID (heap faulty_hub 0)))) \<noteq> None
   \<and> (\<exists>h'. HandleSendMessage (\<lambda>t. []) faulty_hub 0 ''r1'' ''hello'' = Inr h'
         \<and> replied faulty_hub h' 0 [error_frame ''not a member of this room'' ''NOT_MEMBER''])
   \<and> fst (AddRoomMember (DB faulty_hub) ''r1'' (UserID (heap faulty_hub 0))) \<noteq> None
   \<and> silent faulty_hub (HandleRoomJoin faulty_hub 0 ''r1'')"
proof -
  have a: "\<not> chan_closed (send (heap faulty_hub 0))" "\<not> chan_full (send (heap faulty_hub 0))"
    by (simp_all add: faulty_hub_def reader_hub_def make_chan_def chan_full_def)
  have b: "snd (fst (IsRoomMember (DB faulty_hub) ''r1'' (UserID (heap faulty_hub 0)))) \<noteq> None"
    by (simp add: faulty_hub_def reader_hub_def read_db_def IsRoomMember_def driver_def)
  have c: "fst (AddRoomMember (DB faulty_hub) ''r1'' (UserID (heap faulty_hub 0))) \<noteq> None"
    by (simp add: faulty_hub_def reader_hub_def read_db_def AddRoomMember_def driver_def)
  have d: "''hello'' \<noteq> [] \<and> ''r1'' \<noteq> []" by simp
  have e: "\<not> chan_closed (send (heap append_fault_hub 0))"
    "\<not> chan_full (send (heap append_fault_hub 0))"
    by (simp_all add: append_fault_hub_def reader_hub_def make_chan_def chan_full_def)
  have f: "fst (IsRoomMember (DB append_fault_hub) ''r1'' (UserID (heap append_fault_hub 0)))
             = (True, None)"
    by (simp add: append_fault_hub_def reader_hub_def read_db_def IsRoomMember_def driver_def
          is_member_row_def)
  have g: "isl (fst (CreateMessage
                 (snd (IsRoomMember (DB append_fault_hub) ''r1'' (UserID (heap append_fault_hub 0))))
                 ''r1'' (UserID (heap append_fault_hub 0)) ''hello''))"
    by (simp add: append_fault_hub_def reader_hub_def read_db_def IsRoomMember_def driver_def
          CreateMessage_def)
  from storage_error_frames [OF e, where roomID = "''r1''" and content = "''hello''"
      and time_Format = "\<lambda>t. []", THEN conjunct1] d f g
  have i: "\<exists>h'. HandleSendMessage (\<lambda>t. []) append_fault_hub 0 ''r1'' ''hello'' = Inr h'
         \<and> replied append_fault_hub h' 0 [error_frame ''failed to send message'' ''INTERNAL_ERROR'']"
    by blast
  from storage_error_frames [OF a, where roomID = "''r1''" and content = "''hello''"
      and time_Format = "\<lambda>t. []", THEN conjunct2, THEN conjunct1] d b
  have n: "\<exists>h'. HandleSendMessage (\<lambda>t. []) faulty_hub 0 ''r1'' ''hello'' = Inr h'
         \<and> replied faulty_hub h' 0 [error_frame ''not a member of this room'' ''NOT_MEMBER'']"
    by blast
  from storage_error_frames [OF a, where roomID = "''r1''",
      THEN conjunct2, THEN conjunct2, THEN conjunct1] c
  have j: "silent faulty_hub (HandleRoomJoin faulty_hub 0 ''r1'')"
    by blast
  from a b c e f g i n j show ?thesis by simp
qed

text \<open>
  Against claim C4 as stated: the driver fails the insert of \<^verbatim>\<open>room.join\<close>; the handler
  returns with the sender's queue still empty, so no \<^verbatim>\<open>INTERNAL_ERROR\<close> frame was sent.
\<close>

theorem join_error_no_frame_counterexample:
  "fst (AddRoomMember (DB faulty_hub) ''r1'' (UserID (heap faulty_hub 0))) = Some DriverError
   \<and> \<not> chan_full (send (heap faulty_hub 0))
   \<and> chan_buf (send (heap (HandleRoomJoin faulty_hub 0 ''r1'') 0)) = []"
  by (simp add: faulty_hub_def reader_hub_def read_db_def AddRoomMember_def driver_def
        HandleRoomJoin_def make_chan_def chan_full_def)

section \<open>Membership and publishing\<close>

lemma sendError_broadcast: "sendError h c m code = Inr h' \<Longrightarrow> broadcast h' = broadcast h"
  by (auto simp: sendError_def Let_def set_send_def split: selected.splits)

lemma sendError_error_reply:
  "error_reply h (sendError (h\<lparr>DB := d\<rparr>) c message code) c message code"
  by (simp add: error_reply_def sendError_def try_send_def chan_full_def set_send_def
        error_frame_def Let_def)

lemma sendError_error_reply_same:
  "error_reply h (sendError h c message code) c message code"
  using sendError_error_reply [of h "DB h" c message code] by simp

text \<open>
  Claim C5, as the code has it. \<^verbatim>\<open>message.send\<close> publishes only when content and room
  id are non-empty, the membership query succeeded and storage holds a membership row of
  the sender for the room at that moment. With non-empty content and room id, a sender
  without a membership row, or one whose membership query fails, is offered an error
  frame with code \<^verbatim>\<open>NOT_MEMBER\<close> and nothing else is emitted; with an empty content or
  room id the frame has code \<^verbatim>\<open>INVALID_PAYLOAD\<close> and storage is not consulted. The typing
  handler publishes its update, sender excluded, without consulting storage;
  \<^verbatim>\<open>room.leave\<close> publishes after a successful delete, when no membership row is left;
  \<^verbatim>\<open>message.read\<close> publishes whenever the timestamp parses and the update returns no
  error.
\<close>

theorem membership_checked_on_send_only:
  shows "(\<forall>h'. HandleSendMessage time_Format h c roomID content = Inr h'
              \<and> broadcast h' \<noteq> broadcast h
            \<longrightarrow> content \<noteq> [] \<and> roomID \<noteq> []
                \<and> fst (IsRoomMember (DB h) roomID (UserID (heap h c))) = (True, None)
                \<and> persisted_member (DB h) roomID (UserID (heap h c)))
       \<and> (content \<noteq> [] \<and> roomID \<noteq> []
            \<and> (\<not> persisted_member (DB h) roomID (UserID (heap h c))
                \<or> snd (fst (IsRoomMember (DB h) roomID (UserID (heap h c)))) \<noteq> None)
          \<longrightarrow> error_reply h (HandleSendMessage time_Format h c roomID content) c
                 ''not a member of this room'' ''NOT_MEMBER'')
       \<and> (content = [] \<or> roomID = []
          \<longrightarrow> error_reply h (HandleSendMessage time_Format h c roomID content) c
                 ''content and room_id are required'' ''INVALID_PAYLOAD''
              \<and> (\<forall>h'. HandleSendMessage time_Format h c roomID content = Inr h' \<longrightarrow> DB h' = DB h))
       \<and> broadcast (HandleTyping h c roomID isTyping) =
           broadcast h @ [\<lparr>RoomID = roomID,
              Data = typing_frame roomID (UserID (heap h c)) (Username (heap h c)) isTyping,
              ExcludeUserID = UserID (heap h c)\<rparr>]
       \<and> DB (HandleTyping h c roomID isTyping) = DB h
       \<and> (fst (RemoveRoomMember (DB h) roomID (UserID (heap h c))) = None
          \<longrightarrow> broadcast (HandleRoomLeave h c roomID) =
                broadcast h @ [\<lparr>RoomID = roomID,
                  Data = member_left_frame roomID (UserID (heap h c)) (Username (heap h c)),
                  ExcludeUserID = []\<rparr>]
              \<and> \<not> persisted_member (DB (HandleRoomLeave h c roomID)) roomID (UserID (heap h c)))
       \<and> (\<forall>t h'. time_Parse timestamp = Some t
              \<and> fst (UpdateLastRead (DB h) roomID (UserID (heap h c)) t) = None
              \<and> HandleMessageRead time_Parse h c roomID timestamp = Inr h'
            \<longrightarrow> broadcast h' = broadcast h @ [\<lparr>RoomID = roomID,
                  Data = read_receipt_frame roomID (UserID (heap h c)) (Username (heap h c)) timestamp,
                  ExcludeUserID = UserID (heap h c)\<rparr>])"
proof -
  let ?uid = "UserID (heap h c)"
  obtain isMember err d1 where im: "IsRoomMember (DB h) roomID ?uid = ((isMember, err), d1)"
    by (metis prod.exhaust)
  have mem: "err = None \<Longrightarrow> isMember = persisted_member (DB h) roomID ?uid"
    using im
    by (auto simp: IsRoomMember_def persisted_member_def Let_def split: prod.splits if_splits
          dest: driver_snd_tables)
  have a: "content \<noteq> [] \<and> roomID \<noteq> []
            \<and> fst (IsRoomMember (DB h) roomID ?uid) = (True, None)
            \<and> persisted_member (DB h) roomID ?uid"
    if run: "HandleSendMessage time_Format h c roomID content = Inr h'"
      and pub: "broadcast h' \<noteq> broadcast h" for h'
  proof -
    have ne: "content \<noteq> [] \<and> roomID \<noteq> []"
    proof (rule ccontr)
      assume "\<not> (content \<noteq> [] \<and> roomID \<noteq> [])"
      with run have "sendError h c ''content and room_id are required'' ''INVALID_PAYLOAD'' = Inr h'"
        by (simp add: HandleSendMessage_def)
      from sendError_broadcast [OF this] pub show False by simp
    qed
    have ok: "err = None \<and> isMember"
    proof (rule ccontr)
      assume "\<not> (err = None \<and> isMember)"
      with run im ne
      have "sendError (h\<lparr>DB := d1\<rparr>) c ''not a member of this room'' ''NOT_MEMBER'' = Inr h'"
        by (auto simp: HandleSendMessage_def)
      from sendError_broadcast [OF this] pub show False by simp
    qed
    with mem im ne show ?thesis by simp
  qed
  have b: "error_reply h (HandleSendMessage time_Format h c roomID content) c
             ''not a member of this room'' ''NOT_MEMBER''"
    if ne: "content \<noteq> [] \<and> roomID \<noteq> []"
      and no: "\<not> persisted_member (DB h) roomID ?uid
                \<or> snd (fst (IsRoomMember (DB h) roomID ?uid)) \<noteq> None"
  proof -
    from no mem im have nm: "err \<noteq> None \<or> \<not> isMember" by auto
    with ne im have "HandleSendMessage time_Format h c roomID content
        = sendError (h\<lparr>DB := d1\<rparr>) c ''not a member of this room'' ''NOT_MEMBER''"
      by (auto simp: HandleSendMessage_def)
    then show ?thesis by (simp only: sendError_error_reply)
  qed
  have e: "error_reply h (HandleSendMessage time_Format h c roomID content) c
                 ''content and room_id are required'' ''INVALID_PAYLOAD''
              \<and> (\<forall>h'. HandleSendMessage time_Format h c roomID content = Inr h' \<longrightarrow> DB h' = DB h)"
    if "content = [] \<or> roomID = []"
  proof -
    from that have eq: "HandleSendMessage time_Format h c roomID content
        = sendError h c ''content and room_id are required'' ''INVALID_PAYLOAD''"
      by (simp add: HandleSendMessage_def)
    have "DB h' = DB h"
      if "sendError h c ''content and room_id are required'' ''INVALID_PAYLOAD'' = Inr h'" for h'
      using that by (auto simp: sendError_def Let_def set_send_def split: selected.splits)
    with eq show ?thesis by (simp only: sendError_error_reply_same) simp
  qed
  have ty: "broadcast (HandleTyping h c roomID isTyping) =
           broadcast h @ [\<lparr>RoomID = roomID,
              Data = typing_frame roomID ?uid (Username (heap h c)) isTyping,
              ExcludeUserID = ?uid\<rparr>]"
    "DB (HandleTyping h c roomID isTyping) = DB h"
    by (simp_all add: HandleTyping_def BroadcastToRoom_def typing_frame_def Let_def)
  have lv: "broadcast (HandleRoomLeave h c roomID) =
                broadcast h @ [\<lparr>RoomID = roomID,
                  Data = member_left_frame roomID ?uid (Username (heap h c)),
                  ExcludeUserID = []\<rparr>]
              \<and> \<not> persisted_member (DB (HandleRoomLeave h c roomID)) roomID ?uid"
    if ok: "fst (RemoveRoomMember (DB h) roomID ?uid) = None"
  proof -
    obtain d2 where rm: "RemoveRoomMember (DB h) roomID ?uid = (None, d2)"
      using ok by (metis prod.collapse)
    then have "tbl_room_members d2 =
        filter (\<lambda>rm. \<not> is_member_row roomID ?uid rm) (tbl_room_members (DB h))"
      by (auto simp: RemoveRoomMember_def Let_def split: prod.splits if_splits
            dest: driver_snd_tables)
    then have "\<not> persisted_member d2 roomID ?uid"
      by (simp add: persisted_member_def list_ex_iff)
    with rm show ?thesis
      by (simp add: HandleRoomLeave_def BroadcastToRoom_def member_left_frame_def Let_def)
  qed
  have rd: "broadcast h' = broadcast h @ [\<lparr>RoomID = roomID,
                  Data = read_receipt_frame roomID ?uid (Username (heap h c)) timestamp,
                  ExcludeUserID = ?uid\<rparr>]"
    if p: "time_Parse timestamp = Some t" and ok: "fst (UpdateLastRead (DB h) roomID ?uid t) = None"
      and run: "HandleMessageRead time_Parse h c roomID timestamp = Inr h'" for t h'
  proof -
    obtain d1 where "UpdateLastRead (DB h) roomID ?uid t = (None, d1)"
      using ok by (metis prod.collapse)
    with p run show ?thesis
      by (auto simp: HandleMessageRead_def Let_def BroadcastToRoom_def SendToUser_def
            read_receipt_frame_def set_send_def split: option.splits selected.splits)
  qed
  from a b e ty lv rd show ?thesis by blast
qed

lemmas two_eval = two_hub_def read_db_def persisted_member_def is_member_row_def make_chan_def
  chan_full_def HandleSendMessage_def IsRoomMember_def CreateMessage_def driver_def Let_def
  NewWSMessage_def BroadcastToRoom_def

theorem membership_checked_on_send_only_witness:
  "\<not> persisted_member (DB two_hub) ''r2'' (UserID (heap two_hub 0))
   \<and> (\<exists>h'. HandleSendMessage (\<lambda>t. []) two_hub 0 ''r2'' ''hello'' = Inr h'
         \<and> replied two_hub h' 0 [error_frame ''not a member of this room'' ''NOT_MEMBER''])
   \<and> persisted_member (DB two_faulty_hub) ''r2'' (UserID (heap two_faulty_hub 1))
   \<and> snd (fst (IsRoomMember (DB two_faulty_hub) ''r2'' (UserID (heap two_faulty_hub 1)))) \<noteq> None
   \<and> (\<exists>h'. HandleSendMessage (\<lambda>t. []) two_faulty_hub 1 ''r2'' ''hello'' = Inr h'
         \<and> replied two_faulty_hub h' 1 [error_frame ''not a member of this room'' ''NOT_MEMBER''])
   \<and> (\<exists>h'. HandleSendMessage (\<lambda>t. []) two_hub 1 ''r2'' [] = Inr h'
         \<and> replied two_hub h' 1 [error_frame ''content and room_id are required'' ''INVALID_PAYLOAD''])
   \<and> (\<exists>h'. HandleSendMessage (\<lambda>t. []) two_hub 1 ''r2'' ''hello'' = Inr h'
         \<and> broadcast h' \<noteq> broadcast two_hub)
   \<and> persisted_member (DB two_hub) ''r2'' (UserID (heap two_hub 1))
   \<and> fst (RemoveRoomMember (DB two_hub) ''r2'' (UserID (heap two_hub 1))) = None
   \<and> \<not> persisted_member (DB (HandleRoomLeave two_hub 1 ''r2'')) ''r2'' (UserID (heap two_hub 1))"
proof -
  note T = membership_checked_on_send_only [where time_Format = "\<lambda>t. []"
      and time_Parse = parse_five and timestamp = "[]" and isTyping = True]
  have open_q: "\<not> chan_closed (send (heap two_hub 0))" "\<not> chan_full (send (heap two_hub 0))"
    "\<not> chan_closed (send (heap two_hub 1))" "\<not> chan_full (send (heap two_hub 1))"
    "\<not> chan_closed (send (heap two_faulty_hub 1))" "\<not> chan_full (send (heap two_faulty_hub 1))"
    by (simp_all add: two_faulty_hub_def two_hub_def make_chan_def chan_full_def)
  have unfold_reply: "error_reply h r c m code \<Longrightarrow> \<not> chan_closed (send (heap h c))
      \<Longrightarrow> \<not> chan_full (send (heap h c)) \<Longrightarrow> \<exists>h'. r = Inr h' \<and> replied h h' c [error_frame m code]"
    for h r c m code
    by (cases r) (simp_all add: error_reply_def replied_def)
  have a: "\<not> persisted_member (DB two_hub) ''r2'' (UserID (heap two_hub 0))"
    by (simp add: two_eval)
  have b: "persisted_member (DB two_faulty_hub) ''r2'' (UserID (heap two_faulty_hub 1))"
    "snd (fst (IsRoomMember (DB two_faulty_hub) ''r2'' (UserID (heap two_faulty_hub 1)))) \<noteq> None"
    by (simp_all add: two_faulty_hub_def two_eval)
  have pub: "\<exists>h'. HandleSendMessage (\<lambda>t. []) two_hub 1 ''r2'' ''hello'' = Inr h'
         \<and> broadcast h' \<noteq> broadcast two_hub"
    by (simp add: two_eval)
  have rm: "fst (RemoveRoomMember (DB two_hub) ''r2'' (UserID (heap two_hub 1))) = None"
    by (simp add: two_hub_def read_db_def RemoveRoomMember_def driver_def Let_def)
  have ne: "''hello'' \<noteq> [] \<and> ''r2'' \<noteq> []" by simp
  from T [where h = two_hub and c = 0 and roomID = "''r2''" and content = "''hello''",
      THEN conjunct2, THEN conjunct1] ne a
  have "error_reply two_hub (HandleSendMessage (\<lambda>t. []) two_hub 0 ''r2'' ''hello'') 0
          ''not a member of this room'' ''NOT_MEMBER''"
    by blast
  from unfold_reply [OF this open_q(1,2)]
  have c: "\<exists>h'. HandleSendMessage (\<lambda>t. []) two_hub 0 ''r2'' ''hello'' = Inr h'
         \<and> replied two_hub h' 0 [error_frame ''not a member of this room'' ''NOT_MEMBER'']" .
  from T [where h = two_faulty_hub and c = 1 and roomID = "''r2''" and content = "''hello''",
      THEN conjunct2, THEN conjunct1] ne b(2)
  have "error_reply two_faulty_hub (HandleSendMessage (\<lambda>t. []) two_faulty_hub 1 ''r2'' ''hello'') 1
          ''not a member of this room'' ''NOT_MEMBER''"
    by blast
  from unfold_reply [OF this open_q(5,6)]
  have d: "\<exists>h'. HandleSendMessage (\<lambda>t. []) two_faulty_hub 1 ''r2'' ''hello'' = Inr h'
         \<and> replied two_faulty_hub h' 1 [error_frame ''not a member of this room'' ''NOT_MEMBER'']" .
  from T [where h = two_hub and c = 1 and roomID = "''r2''" and content = "[]",
      THEN conjunct2, THEN conjunct2, THEN conjunct1]
  have "error_reply two_hub (HandleSendMessage (\<lambda>t. []) two_hub 1 ''r2'' []) 1
          ''content and room_id are required'' ''INVALID_PAYLOAD''"
    by blast
  from unfold_reply [OF this open_q(3,4)]
  have e: "\<exists>h'. HandleSendMessage (\<lambda>t. []) two_hub 1 ''r2'' [] = Inr h'
         \<and> replied two_hub h' 1 [error_frame ''content and room_id are required'' ''INVALID_PAYLOAD'']" .
  from T [where h = two_hub and c = 1 and roomID = "''r2''" and content = "''hello''",
      THEN conjunct1] pub
  have f: "persisted_member (DB two_hub) ''r2'' (UserID (heap two_hub 1))"
    by blast
  from T [where h = two_hub and c = 1 and roomID = "''r2''" and content = "''hello''",
      THEN conjunct2, THEN conjunct2, THEN conjunct2, THEN conjunct2, THEN conjunct2,
      THEN conjunct1] rm
  have g: "\<not> persisted_member (DB (HandleRoomLeave two_hub 1 ''r2'')) ''r2'' (UserID (heap two_hub 1))"
    by blast
  show ?thesis by (intro conjI a b c d e pub f rm g)
qed

text \<open>
  Against claim C5 as stated: u1 holds no membership row for r2 and sends
  \<^verbatim>\<open>typing.start\<close> for r2. The update is published, and when the Hub takes it the
  session of u2, subscribed to r2, finds it on its queue.
\<close>

theorem typing_by_non_member_counterexample:
  "\<not> persisted_member (DB two_hub) ''r2'' (UserID (heap two_hub 0))
   \<and> broadcast (HandleTyping two_hub 0 ''r2'' True) =
         [\<lparr>RoomID = ''r2'', Data = typing_frame ''r2'' ''u1'' ''alice'' True, ExcludeUserID = ''u1''\<rparr>]
   \<and> map_sum id (\<lambda>h'. chan_buf (send (heap h' 1)))
         (Run_step (HandleTyping two_hub 0 ''r2'' True) RecvBroadcast)
       = Inr [typing_frame ''r2'' ''u1'' ''alice'' True]"
  by (simp add: two_eval HandleTyping_def typing_frame_def run_broadcast_def try_send_def
        set_send_def)

section \<open>Envelope round trip\<close>

lemmas codec_defs = NewWSMessage_def marshal_WSMessage_def unmarshal_WSMessage_def
  unmarshal_payload_def find_field_def ws_fields_def get_string_def get_bool_def get_int_def

text \<open>
  Claim C9. For every type tag that is valid UTF-8 and every payload value of the wire
  schema (\<^verbatim>\<open>nil\<close>, or a payload struct whose strings are valid UTF-8 and whose count is a
  64-bit integer), \<^verbatim>\<open>NewWSMessage\<close> succeeds, and decoding its result as a \<^verbatim>\<open>WSMessage\<close>
  gives back the tag; decoding the raw payload into the payload's struct type gives back
  an equal value, and for \<^verbatim>\<open>nil\<close> the raw payload is absent.
\<close>

theorem envelope_roundtrip:
  assumes "utf8_valid msgType" and "wire_value pl"
  shows "\<exists>doc msg. NewWSMessage msgType pl = Inr doc \<and> unmarshal_WSMessage doc = Inr msg
           \<and> Type msg = msgType
           \<and> (case struct_of pl of
                 None \<Rightarrow> Payload msg = None
               | Some ty \<Rightarrow> unmarshal_payload ty (Payload msg) = Inr pl)"
  using assms by (cases pl) (simp_all add: codec_defs coerce_utf8_valid)

theorem envelope_roundtrip_witness:
  "utf8_valid TypeUnreadUpdate \<and> wire_value (UnreadUpdatePayload ''r1'' 3)
   \<and> (\<exists>doc msg. NewWSMessage TypeUnreadUpdate (UnreadUpdatePayload ''r1'' 3) = Inr doc
         \<and> unmarshal_WSMessage doc = Inr msg \<and> Type msg = TypeUnreadUpdate
         \<and> unmarshal_payload T_UnreadUpdatePayload (Payload msg) = Inr (UnreadUpdatePayload ''r1'' 3))"
proof -
  have t: "utf8_valid TypeUnreadUpdate"
    by (simp add: TypeUnreadUpdate_def ascii_valid ascii_def)
  have a: "wire_value (UnreadUpdatePayload ''r1'' 3)"
    by (simp add: go_int_def ascii_valid ascii_def)
  from envelope_roundtrip [OF t a] t a show ?thesis by simp
qed

text \<open>
  Outside the schema the encoder does not give the value back: the byte FF alone is not
  UTF-8, and the message of an error payload comes back as U+FFFD.
\<close>

lemma invalid_utf8_is_replaced:
  "\<not> utf8_valid [CHR 0xFF]
   \<and> map_sum id (\<lambda>doc. map_sum id (\<lambda>msg. unmarshal_payload T_ErrorPayload (Payload msg))
                         (unmarshal_WSMessage doc))
         (NewWSMessage TypeError (ErrorPayload [CHR 0xFF] ''c''))
       = Inr (Inr (Inr (ErrorPayload [CHR 0xEF, CHR 0xBF, CHR 0xBD] ''c'')))"
proof -
  have a: "coerce_utf8 [CHR 0xFF] = [CHR 0xEF, CHR 0xBF, CHR 0xBD]"
    by (simp add: coerce_utf8.simps [of "[CHR 0xFF]"])
  have b: "coerce_utf8 [CHR 0xEF, CHR 0xBF, CHR 0xBD] = [CHR 0xEF, CHR 0xBF, CHR 0xBD]"
    by (simp add: coerce_utf8.simps [of "[CHR 0xEF, CHR 0xBF, CHR 0xBD]"] between_def)
  have c: "\<not> utf8_valid [CHR 0xFF]" by (simp add: utf8_valid.simps [of "[CHR 0xFF]"])
  show ?thesis
    by (simp add: codec_defs a b c TypeError_def coerce_utf8_ascii ascii_def)
qed

end
